theory Spec2Isabelle
  imports Complex_Main "HOL-Library.Char_ord" "HOL-Library.List_Lexorder"
begin

section \<open>The global configuration (roop.globals)\<close>

text \<open>
  \<^verbatim>\<open>roop.globals\<close> is a module of mutable attributes. The attributes that
  \<^verbatim>\<open>roop/core.py\<close> reads or writes are the fields of the record below. A path is
  \<^verbatim>\<open>Optional[str]\<close>: argparse leaves \<^verbatim>\<open>None\<close> for a flag that was not given.
\<close>

record globals =
  source_path :: "string option"
  target_path :: "string option"
  output_path :: "string option"
  frame_processors :: "string list"
  headless :: "string option"
  keep_fps :: bool
  keep_audio :: bool
  keep_frames :: bool
  many_faces :: bool
  video_encoder :: string
  video_quality :: int
  max_memory :: int
  cpu_cores :: int
  gpu_threads :: int
  providers :: "string list"
  gpu_vendor :: "string option"

text \<open>Python truthiness of an \<^verbatim>\<open>Optional[str]\<close>: \<^verbatim>\<open>None\<close> and the empty string are falsy.\<close>

definition truthy :: "string option \<Rightarrow> bool" where
  "truthy p = (case p of None \<Rightarrow> False | Some s \<Rightarrow> s \<noteq> [])"

text \<open>Python's \<^verbatim>\<open>a or b\<close>: the first operand when it is truthy, the second otherwise.\<close>

definition py_or :: "string option \<Rightarrow> string option \<Rightarrow> string option" where
  "py_or a b = (if truthy a then a else b)"

section \<open>parse_args\<close>

text \<open>
  The namespace that \<^verbatim>\<open>parser.parse_known_args()[0]\<close> returns. argparse itself is
  library code; the record holds the parsed value of every \<^verbatim>\<open>dest\<close>.
\<close>

record args =
  arg_source_path :: "string option"
  arg_target_path :: "string option"
  arg_output_path :: "string option"
  arg_frame_processor :: "string list"
  arg_keep_fps :: bool
  arg_keep_audio :: bool
  arg_keep_frames :: bool
  arg_many_faces :: bool
  arg_video_encoder :: string
  arg_video_quality :: int
  arg_max_memory :: int
  arg_cpu_cores :: int
  arg_execution_provider :: string
  arg_gpu_threads :: int
  arg_gpu_vendor :: "string option"

text \<open>The assignments of lines 59 to 72, in order.\<close>

definition assign_args :: "args \<Rightarrow> globals \<Rightarrow> globals" where
  "assign_args a g = g\<lparr>
     source_path := arg_source_path a,
     target_path := arg_target_path a,
     output_path := arg_output_path a,
     frame_processors := arg_frame_processor a,
     headless := py_or (py_or (arg_source_path a) (arg_target_path a)) (arg_output_path a),
     keep_fps := arg_keep_fps a,
     keep_audio := arg_keep_audio a,
     keep_frames := arg_keep_frames a,
     many_faces := arg_many_faces a,
     video_encoder := arg_video_encoder a,
     video_quality := arg_video_quality a,
     max_memory := arg_max_memory a,
     cpu_cores := arg_cpu_cores a,
     gpu_threads := arg_gpu_threads a\<rparr>"

text \<open>
  Lines 74 to 80: two separate \<^verbatim>\<open>if\<close> statements. The \<^verbatim>\<open>else\<close> belongs to the
  second one, the test of \<^verbatim>\<open>args.gpu_vendor\<close>.
\<close>

definition select_provider :: "args \<Rightarrow> globals \<Rightarrow> globals" where
  "select_provider a g =
     (let g1 = (if arg_execution_provider a = ''directml''
                then g\<lparr>providers := [''DmlExecutionProvider''], gpu_vendor := Some ''other''\<rparr>
                else g)
      in if truthy (arg_gpu_vendor a)
         then g1\<lparr>gpu_vendor := arg_gpu_vendor a\<rparr>
         else g1\<lparr>providers := [''CPUExecutionProvider'']\<rparr>)"

definition parse_args :: "args \<Rightarrow> globals \<Rightarrow> globals" where
  "parse_args a g = select_provider a (assign_args a g)"

text \<open>
  The namespace of the command line
  \<^verbatim>\<open>run.py -f face.jpg -t target.mp4 -o out.mp4 --execution-provider directml\<close>
  with the defaults of every other flag on a machine with eight logical CPUs.
\<close>

definition directml_args :: args where
  "directml_args = \<lparr>
     arg_source_path = Some ''face.jpg'',
     arg_target_path = Some ''target.mp4'',
     arg_output_path = Some ''out.mp4'',
     arg_frame_processor = [''face-swapper''],
     arg_keep_fps = False,
     arg_keep_audio = True,
     arg_keep_frames = False,
     arg_many_faces = False,
     arg_video_encoder = ''libx264'',
     arg_video_quality = 18,
     arg_max_memory = 16,
     arg_cpu_cores = 4,
     arg_execution_provider = ''directml'',
     arg_gpu_threads = 8,
     arg_gpu_vendor = None\<rparr>"

section \<open>Exceptions, events and the state\<close>

text \<open>
  \<^verbatim>\<open>quit\<close> raises \<^verbatim>\<open>SystemExit\<close> (with the message, if one is given); integer
  division by zero raises \<^verbatim>\<open>ZeroDivisionError\<close>; \<^verbatim>\<open>range\<close> with step zero raises
  \<^verbatim>\<open>ValueError\<close>; the use of a name that has been deleted raises \<^verbatim>\<open>NameError\<close>;
  \<^verbatim>\<open>shutil.move\<close> to the destination \<^verbatim>\<open>None\<close> raises \<^verbatim>\<open>TypeError\<close>; \<open>Raised\<close> is
  any exception that a frame processor or a file operation raises.
\<close>

datatype exn =
    SystemExit "string option"
  | ZeroDivisionError
  | ValueError
  | NameError string
  | TypeError
  | Raised string

text \<open>The two function objects passed as \<^verbatim>\<open>process_video\<close>:
  \<^verbatim>\<open>roop.swapper.process_video\<close> and \<^verbatim>\<open>roop.enhancer.process_video\<close>.\<close>

datatype processor = FaceSwapper | FaceEnhancer

text \<open>
  Every call that leaves \<^verbatim>\<open>roop/core.py\<close> with an effect is an event, with the
  arguments of the call. The trace of a run is the list of its events in program order.
\<close>

datatype event =
    OnChangeStatus string
  | CreateTemp "string option"
  | CopyTempImage "string option"
  | ProcessImage processor "string option" string string
  | ShutilMove string "string option"
  | ExtractFrames "string option"
  | PoolCreate int
  | ApplyAsync processor "string option" "string list" string
  | PoolGet nat
  | PoolClose
  | PoolJoin
  | ProcessVideo processor "string option" "string list" string
  | EmptyCache
  | CreateVideo "string option" "real option"
  | RestoreAudio "string option" "string option"
  | MoveTemp "string option" "string option"
  | CleanTemp "string option"

record state =
  glob :: globals
  trace :: "event list"

text \<open>A procedure returns normally (\<open>None\<close>) or raises (\<open>Some\<close>), and leaves a state.\<close>

type_synonym proc = "state \<Rightarrow> exn option \<times> state"

definition pass :: proc where
  "pass s = (None, s)"

definition throw :: "exn \<Rightarrow> proc" where
  "throw x s = (Some x, s)"

definition emit :: "event \<Rightarrow> proc" where
  "emit e s = (None, s\<lparr>trace := trace s @ [e]\<rparr>)"

definition andthen :: "proc \<Rightarrow> proc \<Rightarrow> proc" where
  "andthen p q s = (case p s of (None, s') \<Rightarrow> q s' | (Some x, s') \<Rightarrow> (Some x, s'))"

fun for_each :: "'a list \<Rightarrow> ('a \<Rightarrow> proc) \<Rightarrow> proc" where
  "for_each [] body = pass"
| "for_each (x # xs) body = andthen (body x) (for_each xs body)"

definition initial :: "globals \<Rightarrow> state" where
  "initial g = \<lparr>glob = g, trace = []\<rparr>"

section \<open>conditional_process_video\<close>

text \<open>Python's \<^verbatim>\<open>a // b\<close> on integers: floor division, an exception when \<open>b\<close> is zero.\<close>

definition py_floordiv :: "int \<Rightarrow> int \<Rightarrow> exn + int" where
  "py_floordiv a b = (if b = 0 then Inl ZeroDivisionError else Inr (a div b))"

text \<open>The indices of \<^verbatim>\<open>range(i, n, step)\<close> for a positive step.\<close>

function range_from :: "nat \<Rightarrow> nat \<Rightarrow> nat \<Rightarrow> nat list" where
  "range_from i n step = (if step = 0 \<or> n \<le> i then [] else i # range_from (i + step) n step)"
  by pat_completeness auto
termination
  by (relation "measure (\<lambda>(i, n, step). n - i)") auto

definition py_range :: "nat \<Rightarrow> nat \<Rightarrow> int \<Rightarrow> exn + nat list" where
  "py_range i n step =
     (if step = 0 then Inl ValueError
      else if step < 0 then Inr []
      else Inr (range_from i n (nat step)))"

text \<open>The slice \<^verbatim>\<open>xs[i:j]\<close> for \<open>0 \<le> i \<le> j\<close>; Python clamps both ends to the length.\<close>

definition py_slice :: "'a list \<Rightarrow> nat \<Rightarrow> nat \<Rightarrow> 'a list" where
  "py_slice xs i j = take (j - i) (drop i xs)"

text \<open>
  What a frame processor's \<^verbatim>\<open>process_video(source_path, frame_paths, mode)\<close> does is
  outside \<^verbatim>\<open>roop/core.py\<close>; the model takes its outcome as a parameter: \<open>None\<close> when
  the call returns, \<open>Some x\<close> when it raises \<open>x\<close>.
\<close>

type_synonym process_video = "processor \<Rightarrow> string option \<Rightarrow> string list \<Rightarrow> string \<Rightarrow> exn option"

text \<open>
  An \<^verbatim>\<open>AsyncResult\<close>: its position in \<^verbatim>\<open>pools\<close> and the outcome of the worker's call.
  \<^verbatim>\<open>get()\<close> blocks until the worker has finished and raises again what the worker raised.
\<close>

type_synonym async_result = "nat \<times> exn option"

definition async_get :: "async_result \<Rightarrow> proc" where
  "async_get r = andthen (emit (PoolGet (fst r)))
                   (case snd r of None \<Rightarrow> pass | Some x \<Rightarrow> throw x)"

text \<open>The slices that the first loop of the pooled branch submits, in submission order.\<close>

definition chunks :: "'a list \<Rightarrow> nat list \<Rightarrow> int \<Rightarrow> 'a list list" where
  "chunks xs idxs pool_amount = map (\<lambda>i. py_slice xs i (i + nat pool_amount)) idxs"

definition conditional_process_video ::
  "process_video \<Rightarrow> string option \<Rightarrow> string list \<Rightarrow> processor \<Rightarrow> proc" where
  "conditional_process_video run src temp_frame_paths f s =
     (case py_floordiv (int (length temp_frame_paths)) (cpu_cores (glob s)) of
        Inl x \<Rightarrow> throw x s
      | Inr pool_amount \<Rightarrow>
          if pool_amount > 2 \<and> cpu_cores (glob s) > 1 \<and> gpu_vendor (glob s) = None then
            (case py_range 0 (length temp_frame_paths) pool_amount of
               Inl x \<Rightarrow> throw x s
             | Inr idxs \<Rightarrow>
                 (let cs = chunks temp_frame_paths idxs pool_amount;
                      pools = map (\<lambda>(k, c). (k, run f src c ''cpu'')) (enumerate 0 cs)
                  in andthen (emit (PoolCreate (cpu_cores (glob s))))
                    (andthen (for_each cs (\<lambda>c. emit (ApplyAsync f src c ''cpu'')))
                    (andthen (for_each pools async_get)
                    (andthen (emit PoolClose)
                             (emit PoolJoin)))) s))
          else
            andthen (emit (ProcessVideo f (source_path (glob s)) temp_frame_paths ''gpu''))
              (case run f (source_path (glob s)) temp_frame_paths ''gpu'' of
                 None \<Rightarrow> pass | Some x \<Rightarrow> throw x) s)"

text \<open>Whether a configuration takes the pooled branch for a list of \<open>n\<close> frame paths.\<close>

definition pooled :: "globals \<Rightarrow> nat \<Rightarrow> bool" where
  "pooled g n = (int n div cpu_cores g > 2 \<and> cpu_cores g > 1 \<and> gpu_vendor g = None)"

text \<open>The slices of lines 155 and 156 for the chunk size that line 151 computes.\<close>

definition slices_of :: "globals \<Rightarrow> 'a list \<Rightarrow> 'a list list" where
  "slices_of g xs =
     chunks xs (range_from 0 (length xs) (nat (int (length xs) div cpu_cores g)))
       (int (length xs) div cpu_cores g)"

text \<open>Reading a trace: the chunks submitted to the pool, the pools created, and the
  frames handed to the processor (by a submission or by a direct call), each with the
  source image it is processed with.\<close>

fun submitted_by :: "event \<Rightarrow> string list list" where
  "submitted_by (ApplyAsync f src c m) = [c]"
| "submitted_by _ = []"

definition submitted :: "event list \<Rightarrow> string list list" where
  "submitted tr = concat (map submitted_by tr)"

fun pool_of :: "event \<Rightarrow> int list" where
  "pool_of (PoolCreate n) = [n]"
| "pool_of _ = []"

definition pools_created :: "event list \<Rightarrow> int list" where
  "pools_created tr = concat (map pool_of tr)"

fun work_of :: "event \<Rightarrow> (string option \<times> string) list" where
  "work_of (ApplyAsync f src c m) = map (\<lambda>p. (src, p)) c"
| "work_of (ProcessVideo f src c m) = map (\<lambda>p. (src, p)) c"
| "work_of _ = []"

definition work :: "event list \<Rightarrow> (string option \<times> string) list" where
  "work tr = concat (map work_of tr)"

text \<open>The trace that a call of \<^verbatim>\<open>conditional_process_video\<close> leaves, and its outcome.\<close>

definition cpv_trace ::
  "process_video \<Rightarrow> globals \<Rightarrow> string option \<Rightarrow> string list \<Rightarrow> processor \<Rightarrow> event list" where
  "cpv_trace run g src xs f = trace (snd (conditional_process_video run src xs f (initial g)))"

definition cpv_outcome ::
  "process_video \<Rightarrow> globals \<Rightarrow> string option \<Rightarrow> string list \<Rightarrow> processor \<Rightarrow> exn option" where
  "cpv_outcome run g src xs f = fst (conditional_process_video run src xs f (initial g))"

definition a_globals :: globals where
  "a_globals = \<lparr>
     source_path = Some ''face.jpg'',
     target_path = Some ''target.mp4'',
     output_path = Some ''out.mp4'',
     frame_processors = [''face-swapper''],
     headless = Some ''face.jpg'',
     keep_fps = False,
     keep_audio = True,
     keep_frames = False,
     many_faces = False,
     video_encoder = ''libx264'',
     video_quality = 18,
     max_memory = 16,
     cpu_cores = 2,
     gpu_threads = 8,
     providers = [''CPUExecutionProvider''],
     gpu_vendor = None\<rparr>"

definition frames7 :: "string list" where
  "frames7 = [''1.png'', ''2.png'', ''3.png'', ''4.png'', ''5.png'', ''6.png'', ''7.png'']"

definition never_raises :: process_video where
  "never_raises f src c m = None"

text \<open>A processor that fails on every chunk that contains the frame \<^verbatim>\<open>5.png\<close>.\<close>

definition raises_on_5 :: process_video where
  "raises_on_5 f src c m = (if ''5.png'' \<in> set c then Some (Raised ''no face'') else None)"

section \<open>pre_check\<close>

text \<open>
  What \<^verbatim>\<open>pre_check\<close> reads from the interpreter and from torch. \<open>version_info\<close> holds
  the leading integers of \<^verbatim>\<open>sys.version_info\<close>: a tuple compares with \<^verbatim>\<open>(3, 9)\<close>
  lexicographically, and a longer tuple with an equal prefix is the greater one, as for
  lists here. \<^verbatim>\<open>torch.version.cuda\<close> is a string and the two tests on it compare
  strings, character by character. \<open>providers_at_import\<close> is the value of
  \<^verbatim>\<open>roop.globals.providers\<close> when \<^verbatim>\<open>roop/core.py\<close> was imported.
\<close>

record runtime =
  providers_at_import :: "string list"
  version_info :: "nat list"
  which_ffmpeg :: "string option"
  cuda_is_available :: bool
  cuda_version :: string
  cudnn_version :: int

text \<open>Python's \<^verbatim>\<open>str\<close> of an integer, for the f-strings of lines 145 and 147.\<close>

fun str_nat :: "nat \<Rightarrow> string" where
  "str_nat n = (if n < 10 then [''0123456789'' ! n]
                else str_nat (n div 10) @ [''0123456789'' ! (n mod 10)])"

definition str_int :: "int \<Rightarrow> string" where
  "str_int i = (if i < 0 then CHR ''-'' # str_nat (nat (- i)) else str_nat (nat i))"

definition quit :: "string option \<Rightarrow> proc" where
  "quit message = throw (SystemExit message)"

text \<open>
  Lines 32 and 33, executed at import: \<^verbatim>\<open>del torch\<close> when the ROCM provider is among
  the providers. Afterwards the name \<^verbatim>\<open>torch\<close> is unbound in the module, and evaluating
  it raises \<^verbatim>\<open>NameError\<close>.
\<close>

definition torch_bound :: "runtime \<Rightarrow> bool" where
  "torch_bound r = (''ROCMExecutionProvider'' \<notin> set (providers_at_import r))"

definition lookup_torch :: "runtime \<Rightarrow> proc" where
  "lookup_torch r = (if torch_bound r then pass else throw (NameError ''torch''))"

definition pre_check :: "runtime \<Rightarrow> proc" where
  "pre_check r s =
     andthen (if version_info r < [3, 9]
              then quit (Some ''Python version is not supported - please upgrade to 3.9 or higher.'')
              else pass)
    (andthen (if \<not> truthy (which_ffmpeg r) then quit (Some ''ffmpeg is not installed!'') else pass)
    (andthen (if gpu_vendor (glob s) = Some ''apple''
                 \<and> ''CoreMLExecutionProvider'' \<notin> set (providers (glob s))
              then quit (Some ''You are using --gpu=apple flag but CoreML is not available or properly installed on your system.'')
              else pass)
    (andthen (if gpu_vendor (glob s) = Some ''amd''
                 \<and> ''ROCMExecutionProvider'' \<notin> set (providers (glob s))
              then quit (Some ''You are using --gpu=amd flag but ROCM is not available or properly installed on your system.'')
              else pass)
    (if gpu_vendor (glob s) = Some ''nvidia'' then
       andthen (lookup_torch r)
      (andthen (if \<not> cuda_is_available r
                then quit (Some ''You are using --gpu=nvidia flag but CUDA is not available or properly installed on your system.'')
                else pass)
      (andthen (if cuda_version r > ''11.8''
                then quit (Some (''CUDA version '' @ cuda_version r
                                   @ '' is not supported - please downgrade to 11.8''))
                else pass)
      (andthen (if cuda_version r < ''11.4''
                then quit (Some (''CUDA version '' @ cuda_version r
                                   @ '' is not supported - please upgrade to 11.8''))
                else pass)
      (andthen (if cudnn_version r < 8220
                then quit (Some (''CUDNN version '' @ str_int (cudnn_version r)
                                   @ '' is not supported - please upgrade to 8.9.1''))
                else pass)
               (if cudnn_version r > 8910
                then quit (Some (''CUDNN version '' @ str_int (cudnn_version r)
                                   @ '' is not supported - please downgrade to 8.9.1''))
                else pass)))))
     else pass)))) s"

text \<open>
  The unsupported environments, as the specification lists them: an interpreter below
  3.9, no ffmpeg on the path, or the accelerator of the selected GPU vendor unavailable.
\<close>

definition accelerator_unavailable :: "runtime \<Rightarrow> globals \<Rightarrow> bool" where
  "accelerator_unavailable r g =
     ((gpu_vendor g = Some ''apple'' \<and> ''CoreMLExecutionProvider'' \<notin> set (providers g))
      \<or> (gpu_vendor g = Some ''amd'' \<and> ''ROCMExecutionProvider'' \<notin> set (providers g))
      \<or> (gpu_vendor g = Some ''nvidia''
          \<and> (\<not> cuda_is_available r
              \<or> cuda_version r > ''11.8'' \<or> cuda_version r < ''11.4''
              \<or> cudnn_version r < 8220 \<or> cudnn_version r > 8910)))"

definition unsupported :: "runtime \<Rightarrow> globals \<Rightarrow> bool" where
  "unsupported r g =
     (version_info r < [3, 9] \<or> \<not> truthy (which_ffmpeg r) \<or> accelerator_unavailable r g)"

definition pre_check_outcome :: "runtime \<Rightarrow> globals \<Rightarrow> exn option" where
  "pre_check_outcome r g = fst (pre_check r (initial g))"

definition pre_check_trace :: "runtime \<Rightarrow> globals \<Rightarrow> event list" where
  "pre_check_trace r g = trace (snd (pre_check r (initial g)))"

definition is_quit_with_message :: "exn option \<Rightarrow> bool" where
  "is_quit_with_message out =
     (case out of Some (SystemExit (Some m)) \<Rightarrow> m \<noteq> [] | _ \<Rightarrow> False)"

text \<open>A supported Python 3.10 runtime with ffmpeg and CUDA 11.8, and the same
  runtime with CUDA 12.1.\<close>

definition a_runtime :: runtime where
  "a_runtime = \<lparr>
     providers_at_import = [''CUDAExecutionProvider'', ''CPUExecutionProvider''],
     version_info = [3, 10, 12],
     which_ffmpeg = Some ''/usr/bin/ffmpeg'',
     cuda_is_available = True,
     cuda_version = ''11.8'',
     cudnn_version = 8700\<rparr>"

definition cuda12_runtime :: runtime where
  "cuda12_runtime = a_runtime\<lparr>cuda_version := ''12.1''\<rparr>"

definition nvidia_globals :: globals where
  "nvidia_globals = a_globals\<lparr>gpu_vendor := Some ''nvidia''\<rparr>"

text \<open>
  A machine on which the ROCM provider is available and CUDA is not: the configuration
  and the runtime when \<^verbatim>\<open>roop/core.py\<close> has been imported, and the namespace of the
  command line \<^verbatim>\<open>run.py -f face.jpg -t target.mp4 -o out.mp4 --gpu-vendor nvidia\<close>.
\<close>

definition rocm_globals :: globals where
  "rocm_globals = a_globals\<lparr>providers := [''ROCMExecutionProvider'', ''CPUExecutionProvider'']\<rparr>"

definition rocm_runtime :: runtime where
  "rocm_runtime = a_runtime\<lparr>
     providers_at_import := [''ROCMExecutionProvider'', ''CPUExecutionProvider''],
     cuda_is_available := False\<rparr>"

definition nvidia_args :: args where
  "nvidia_args = directml_args\<lparr>arg_execution_provider := ''cpu'', arg_gpu_vendor := Some ''nvidia''\<rparr>"

section \<open>start and destroy\<close>

text \<open>
  What \<^verbatim>\<open>start\<close> asks of the file system, of the models and of \<^verbatim>\<open>roop.utilities\<close>;
  none of it is in \<^verbatim>\<open>roop/core.py\<close>, so each answer is a parameter. \<open>get_one_face\<close>
  is the truth value of \<^verbatim>\<open>get_one_face(cv2.imread(path))\<close>; \<open>temp_isfile\<close> is
  \<^verbatim>\<open>os.path.isfile\<close> at line 199, after the processors have run; the scores of the NSFW
  models are the real numbers that their floats denote; \<open>str_float\<close> is the text that an
  f-string prints for a float. \<open>process_video_of\<close> and \<open>process_image_of\<close> are the
  outcomes of the calls of a frame processor, \<open>shutil_move_of\<close> is the outcome of
  \<^verbatim>\<open>shutil.move\<close> between two paths: \<open>None\<close> when the call returns, \<open>Some x\<close> when it
  raises \<open>x\<close>.
\<close>

record world =
  isfile :: "string option \<Rightarrow> bool"
  get_one_face :: "string option \<Rightarrow> bool"
  has_image_extension :: "string option \<Rightarrow> bool"
  predict_image :: "string option \<Rightarrow> real"
  copy_temp_image :: "string option \<Rightarrow> string"
  temp_isfile :: "string \<Rightarrow> bool"
  is_image :: "string option \<Rightarrow> bool"
  is_video :: "string option \<Rightarrow> bool"
  predict_video_frames :: "string option \<Rightarrow> real list"
  get_temp_frame_paths :: "string option \<Rightarrow> string list"
  detect_fps :: "string option \<Rightarrow> real"
  str_float :: "real \<Rightarrow> string"
  process_video_of :: process_video
  process_image_of :: "processor \<Rightarrow> string option \<Rightarrow> string \<Rightarrow> string \<Rightarrow> exn option"
  shutil_move_of :: "string \<Rightarrow> string \<Rightarrow> exn option"

definition with_glob :: "(globals \<Rightarrow> proc) \<Rightarrow> proc" where
  "with_glob k s = k (glob s) s"

definition update_status :: "string \<Rightarrow> proc" where
  "update_status message = emit (OnChangeStatus (''Status: '' @ message))"

definition release_resources :: proc where
  "release_resources =
     with_glob (\<lambda>g. if gpu_vendor g = Some ''nvidia'' then emit EmptyCache else pass)"

definition set_gpu_threads :: "int \<Rightarrow> proc" where
  "set_gpu_threads n s = (None, s\<lparr>glob := (glob s)\<lparr>gpu_threads := n\<rparr>\<rparr>)"

definition destroy :: proc where
  "destroy =
     with_glob (\<lambda>g.
       andthen (if truthy (target_path g) then emit (CleanTemp (target_path g)) else pass)
               (quit None))"

text \<open>
  A call \<^verbatim>\<open>process_image(source_path, target_path, output_path)\<close> of a frame processor:
  the call is an event, and what the call raises leaves \<^verbatim>\<open>start\<close>.
\<close>

definition process_image :: "world \<Rightarrow> processor \<Rightarrow> string option \<Rightarrow> string \<Rightarrow> string \<Rightarrow> proc" where
  "process_image w f src target out =
     andthen (emit (ProcessImage f src target out))
       (case process_image_of w f src target out of None \<Rightarrow> pass | Some x \<Rightarrow> throw x)"

text \<open>
  \<^verbatim>\<open>shutil.move(src, dst, copy_function=shutil.copy2)\<close>. The destination is
  \<^verbatim>\<open>roop.globals.output_path\<close>, which is \<^verbatim>\<open>None\<close> when no \<^verbatim>\<open>-o\<close> flag was given; then
  the call raises \<^verbatim>\<open>TypeError\<close>.
\<close>

definition shutil_move :: "world \<Rightarrow> string \<Rightarrow> string option \<Rightarrow> proc" where
  "shutil_move w src dst =
     andthen (emit (ShutilMove src dst))
       (case dst of
          None \<Rightarrow> throw TypeError
        | Some d \<Rightarrow> (case shutil_move_of w src d of None \<Rightarrow> pass | Some x \<Rightarrow> throw x))"

text \<open>Lines 190 to 205: the target has an image extension.\<close>

definition image_to_image :: "world \<Rightarrow> proc" where
  "image_to_image w =
     with_glob (\<lambda>g.
       let temp_image_path = copy_temp_image w (target_path g) in
       andthen (if predict_image w (target_path g) > 0.85 then destroy else pass)
      (andthen (emit (CopyTempImage (target_path g)))
      (andthen (if ''face-swapper'' \<in> set (frame_processors g)
                then andthen (update_status ''Swapping in progress...'')
                       (process_image w FaceSwapper (source_path g)
                          temp_image_path temp_image_path)
                else pass)
      (andthen (if gpu_vendor g = Some ''nvidia'' \<and> ''face-enhancer'' \<in> set (frame_processors g)
                then andthen (update_status ''Enhancing in progress...'')
                       (process_image w FaceEnhancer (source_path g)
                          temp_image_path temp_image_path)
                else pass)
      (andthen (if temp_isfile w temp_image_path
                then shutil_move w temp_image_path (output_path g)
                else pass)
               (if is_image w (target_path g)
                then update_status ''Processing to image succeed!''
                else update_status ''Processing to image failed!''))))))"

text \<open>Lines 207 to 247: every other target.\<close>

definition image_to_videos :: "world \<Rightarrow> proc" where
  "image_to_videos w =
     with_glob (\<lambda>g.
       let temp_frame_paths = get_temp_frame_paths w (target_path g) in
       andthen (if list_ex (\<lambda>probability. probability > 0.85)
                     (predict_video_frames w (target_path g))
                then destroy else pass)
      (andthen (update_status ''Creating temp resources...'')
      (andthen (emit (CreateTemp (target_path g)))
      (andthen (update_status ''Extracting frames...'')
      (andthen (emit (ExtractFrames (target_path g)))
      (andthen (if ''face-swapper'' \<in> set (frame_processors g)
                then andthen (update_status ''Swapping in progress...'')
                       (conditional_process_video (process_video_of w) (source_path g)
                          temp_frame_paths FaceSwapper)
                else pass)
      (andthen release_resources
      (andthen (set_gpu_threads 1)
      (andthen (if gpu_vendor g = Some ''nvidia'' \<and> ''face-enhancer'' \<in> set (frame_processors g)
                then andthen (update_status ''Enhancing in progress...'')
                       (conditional_process_video (process_video_of w) (source_path g)
                          temp_frame_paths FaceEnhancer)
                else pass)
      (andthen release_resources
      (andthen (if keep_fps g
                then andthen (update_status ''Detecting fps...'')
                      (andthen (update_status (''Creating video with ''
                                  @ str_float w (detect_fps w (target_path g)) @ '' fps...''))
                         (emit (CreateVideo (target_path g)
                                  (Some (detect_fps w (target_path g))))))
                else andthen (update_status ''Creating video with 30.0 fps...'')
                       (emit (CreateVideo (target_path g) None)))
      (andthen (if keep_audio g
                then andthen (if keep_fps g
                              then update_status ''Restoring audio...''
                              else update_status
                                ''Restoring audio might cause issues as fps are not kept...'')
                       (emit (RestoreAudio (target_path g) (output_path g)))
                else emit (MoveTemp (target_path g) (output_path g)))
      (andthen (emit (CleanTemp (target_path g)))
      (andthen (if is_video w (target_path g)
                then update_status ''Processing to video succeed!''
                else update_status ''Processing to video failed!'')
               (emit (CleanTemp (target_path g)))))))))))))))))"

definition start :: "world \<Rightarrow> proc" where
  "start w =
     with_glob (\<lambda>g.
       if \<not> truthy (source_path g) \<or> \<not> isfile w (source_path g) then
         update_status ''Select an image that contains a face.''
       else if \<not> truthy (target_path g) \<or> \<not> isfile w (target_path g) then
         update_status ''Select an image or video target!''
       else if \<not> get_one_face w (source_path g) then
         update_status ''No face detected in source image. Please try with another one!''
       else
         andthen (emit (CreateTemp (target_path g)))
           (if has_image_extension w (target_path g)
            then image_to_image w
            else image_to_videos w))"

text \<open>
  \<^verbatim>\<open>run\<close> calls \<^verbatim>\<open>start()\<close> in the main thread on the headless path (line 268), and
  nothing between \<^verbatim>\<open>start\<close> and the top of the interpreter catches an exception: one
  that leaves \<^verbatim>\<open>start\<close> there, \<^verbatim>\<open>SystemExit\<close> included, ends the process.
  \<^verbatim>\<open>start_in_thread\<close> (lines 256 to 258) runs \<^verbatim>\<open>start\<close> as the target of a
  \<^verbatim>\<open>threading.Thread\<close>: an exception that leaves the target ends that thread, and the
  caller goes on. The model runs the thread to its end at the call.
\<close>

datatype process = Running | Exited

definition in_main_thread :: "proc \<Rightarrow> state \<Rightarrow> process" where
  "in_main_thread p s = (case fst (p s) of None \<Rightarrow> Running | Some x \<Rightarrow> Exited)"

definition start_in_thread :: "world \<Rightarrow> proc" where
  "start_in_thread w s = (None, snd (start w s))"

definition start_trace :: "world \<Rightarrow> globals \<Rightarrow> event list" where
  "start_trace w g = trace (snd (start w (initial g)))"

definition start_outcome :: "world \<Rightarrow> globals \<Rightarrow> exn option" where
  "start_outcome w g = fst (start w (initial g))"

text \<open>The three early returns of lines 176 to 185 are not taken.\<close>

definition passes_source_checks :: "world \<Rightarrow> globals \<Rightarrow> bool" where
  "passes_source_checks w g =
     (truthy (source_path g) \<and> isfile w (source_path g)
      \<and> truthy (target_path g) \<and> isfile w (target_path g)
      \<and> get_one_face w (source_path g))"

text \<open>The NSFW test that applies to the target: line 190 for a target with an image
  extension, line 208 for every other target.\<close>

definition nsfw :: "world \<Rightarrow> globals \<Rightarrow> bool" where
  "nsfw w g =
     (if has_image_extension w (target_path g)
      then predict_image w (target_path g) > 0.85
      else list_ex (\<lambda>probability. probability > 0.85) (predict_video_frames w (target_path g)))"

text \<open>The events that write the output file.\<close>

fun writes_output :: "event \<Rightarrow> bool" where
  "writes_output (ShutilMove tmp out) = True"
| "writes_output (RestoreAudio t out) = True"
| "writes_output (MoveTemp t out) = True"
| "writes_output _ = False"

text \<open>The events that run a frame processor on frames or on an image.\<close>

fun runs_processor :: "event \<Rightarrow> bool" where
  "runs_processor (ProcessImage f src a b) = True"
| "runs_processor (ApplyAsync f src c m) = True"
| "runs_processor (ProcessVideo f src c m) = True"
| "runs_processor _ = False"

text \<open>The steps of the image pipeline in a trace: the temporary copy, the processor
  runs and the final move.\<close>

fun is_image_step :: "event \<Rightarrow> bool" where
  "is_image_step (CopyTempImage t) = True"
| "is_image_step (ProcessImage f src a b) = True"
| "is_image_step (ShutilMove tmp out) = True"
| "is_image_step _ = False"

text \<open>The stages of the video pipeline, and the stage that an event belongs to.\<close>

datatype stage =
  Extraction | Swap | Enhancement | Reassembly | AudioRestoration | PlainMove | Cleanup

fun stage_of_processor :: "processor \<Rightarrow> stage" where
  "stage_of_processor FaceSwapper = Swap"
| "stage_of_processor FaceEnhancer = Enhancement"

fun stage_of :: "event \<Rightarrow> stage list" where
  "stage_of (ExtractFrames t) = [Extraction]"
| "stage_of (ApplyAsync f src c m) = [stage_of_processor f]"
| "stage_of (ProcessVideo f src c m) = [stage_of_processor f]"
| "stage_of (CreateVideo t fps) = [Reassembly]"
| "stage_of (RestoreAudio t out) = [AudioRestoration]"
| "stage_of (MoveTemp t out) = [PlainMove]"
| "stage_of (CleanTemp t) = [Cleanup]"
| "stage_of _ = []"

text \<open>The stages of a trace in order, consecutive events of one stage counted once.\<close>

definition stages :: "event list \<Rightarrow> stage list" where
  "stages tr = remdups_adj (concat (map stage_of tr))"

text \<open>A world in which every file exists, the source shows a face, targets ending in
  \<^verbatim>\<open>.png\<close> are images, no NSFW score exceeds the threshold and no call raises.\<close>

definition a_world :: world where
  "a_world = \<lparr>
     isfile = (\<lambda>p. True),
     get_one_face = (\<lambda>p. True),
     has_image_extension = (\<lambda>p. p = Some ''target.png''),
     predict_image = (\<lambda>p. 1 / 10),
     copy_temp_image = (\<lambda>p. ''temp/target.png''),
     temp_isfile = (\<lambda>p. True),
     is_image = (\<lambda>p. p = Some ''target.png''),
     is_video = (\<lambda>p. p = Some ''target.mp4''),
     predict_video_frames = (\<lambda>p. [1 / 10, 2 / 10]),
     get_temp_frame_paths = (\<lambda>p. frames7),
     detect_fps = (\<lambda>p. 25),
     str_float = (\<lambda>x. ''25.0''),
     process_video_of = never_raises,
     process_image_of = (\<lambda>f src target out. None),
     shutil_move_of = (\<lambda>src dst. None)\<rparr>"

text \<open>The same world with NSFW scores above the threshold.\<close>

definition nsfw_world :: world where
  "nsfw_world = a_world\<lparr>predict_image := (\<lambda>p. 9 / 10),
                         predict_video_frames := (\<lambda>p. [1 / 10, 9 / 10])\<rparr>"

text \<open>Two configurations that select both frame processors and no GPU vendor: one
  with an image target, one with a video target.\<close>

definition image_globals :: globals where
  "image_globals = a_globals\<lparr>target_path := Some ''target.png'', output_path := Some ''out.png'',
      frame_processors := [''face-swapper'', ''face-enhancer'']\<rparr>"

definition video_globals :: globals where
  "video_globals = a_globals\<lparr>frame_processors := [''face-swapper'', ''face-enhancer'']\<rparr>"

text \<open>The same configuration with the GPU vendor \<^verbatim>\<open>nvidia\<close>.\<close>

definition nvidia_video_globals :: globals where
  "nvidia_video_globals = video_globals\<lparr>gpu_vendor := Some ''nvidia''\<rparr>"

text \<open>The first configuration with one CPU core, the image configuration without an
  output path, and the NSFW world with a source image that shows no face.\<close>

definition one_core_globals :: globals where
  "one_core_globals = a_globals\<lparr>cpu_cores := 1\<rparr>"

definition no_output_globals :: globals where
  "no_output_globals = image_globals\<lparr>output_path := None\<rparr>"

definition no_face_world :: world where
  "no_face_world = nsfw_world\<lparr>get_one_face := (\<lambda>p. False)\<rparr>"

section \<open>Reasoning about the stages of a run\<close>

text \<open>The stage events of a trace, before consecutive repetitions are merged.\<close>

definition stage_events :: "event list \<Rightarrow> stage list" where
  "stage_events tr = concat (map stage_of tr)"

text \<open>
  \<^verbatim>\<open>start\<close> writes one attribute of the configuration, \<^verbatim>\<open>gpu_threads\<close> (line 220).
  Two configurations are the same for the pipeline when they agree on the attributes
  that the video branch reads.
\<close>

definition same_config :: "globals \<Rightarrow> globals \<Rightarrow> bool" where
  "same_config g g' =
     (source_path g' = source_path g \<and> target_path g' = target_path g
      \<and> output_path g' = output_path g \<and> frame_processors g' = frame_processors g
      \<and> keep_fps g' = keep_fps g \<and> keep_audio g' = keep_audio g
      \<and> cpu_cores g' = cpu_cores g \<and> gpu_vendor g' = gpu_vendor g)"

text \<open>
  \<open>yields g p Q\<close>: every normal return of \<open>p\<close>, from a state whose configuration is
  \<open>g\<close> for the pipeline, keeps that configuration and adds stage events that
  satisfy \<open>Q\<close>. \<open>returns g p\<close>: from every such state \<open>p\<close> returns normally.
\<close>

definition yields :: "globals \<Rightarrow> proc \<Rightarrow> (stage list \<Rightarrow> bool) \<Rightarrow> bool" where
  "yields g p Q =
     (\<forall>s s'. same_config g (glob s) \<longrightarrow> p s = (None, s') \<longrightarrow>
        same_config g (glob s')
        \<and> (\<exists>l. stage_events (trace s') = stage_events (trace s) @ l \<and> Q l))"

definition returns :: "globals \<Rightarrow> proc \<Rightarrow> bool" where
  "returns g p = (\<forall>s. same_config g (glob s) \<longrightarrow> (\<exists>s'. p s = (None, s') \<and> same_config g (glob s')))"

section \<open>Results about parse_args\<close>

lemma parse_args_no_vendor:
  "\<not> truthy (arg_gpu_vendor a) \<Longrightarrow> providers (parse_args a g) = [''CPUExecutionProvider'']"
  by (simp add: parse_args_def select_provider_def Let_def)

text \<open>
  Claim C1. With \<^verbatim>\<open>--execution-provider directml\<close> and no \<^verbatim>\<open>--gpu-vendor\<close>, the
  configuration should select the DirectML provider when \<^verbatim>\<open>parse_args\<close> returns. The
  code sets \<^verbatim>\<open>['DmlExecutionProvider']\<close> at line 75 and overwrites it at line 80:
  whatever the configuration was before, the providers are \<^verbatim>\<open>['CPUExecutionProvider']\<close>
  afterwards, and the DirectML provider is not among them.
\<close>

theorem parse_args_directml_overwritten:
  "providers (parse_args directml_args g) = [''CPUExecutionProvider'']
   \<and> ''DmlExecutionProvider'' \<notin> set (providers (parse_args directml_args g))
   \<and> gpu_vendor (parse_args directml_args g) = Some ''other''"
  by (simp add: parse_args_def select_provider_def assign_args_def directml_args_def
      truthy_def Let_def)

section \<open>Lemmas about the loops of conditional_process_video\<close>

declare range_from.simps [simp del]

lemma range_from_Nil: "n \<le> i \<Longrightarrow> range_from i n p = []"
  by (simp add: range_from.simps)

lemma range_from_Cons:
  "0 < p \<Longrightarrow> i < n \<Longrightarrow> range_from i n p = i # range_from (i + p) n p"
  by (subst range_from.simps) simp

lemma range_from_bounds:
  "0 < p \<Longrightarrow> i < n \<Longrightarrow>
   0 < length (range_from i n p)
   \<and> i + (length (range_from i n p) - 1) * p < n
   \<and> n \<le> i + length (range_from i n p) * p"
proof (induction i n p rule: range_from.induct)
  case (1 i n step)
  have unfold: "range_from i n step = i # range_from (i + step) n step"
    using 1(2,3) by (rule range_from_Cons)
  show ?case
  proof (cases "i + step < n")
    case True
    have ih: "0 < length (range_from (i + step) n step)
       \<and> i + step + (length (range_from (i + step) n step) - 1) * step < n
       \<and> n \<le> i + step + length (range_from (i + step) n step) * step"
      using 1 True by simp
    define m where "m = length (range_from (i + step) n step)"
    from ih have m: "0 < m" "i + step + (m - 1) * step < n" "n \<le> i + step + m * step"
      by (simp_all add: m_def)
    from m(1) have "m * step = step + (m - 1) * step"
      by (cases m) simp_all
    with m show ?thesis
      by (simp add: unfold m_def [symmetric])
  next
    case False
    then have "range_from (i + step) n step = []"
      by (simp add: range_from_Nil)
    with False 1(3) show ?thesis
      by (simp add: unfold)
  qed
qed

lemma chunk_count_ge:
  fixes c p n m :: nat
  assumes "0 < p" "c * p \<le> n" "n \<le> m * p"
  shows "c \<le> m"
proof (rule ccontr)
  assume "\<not> c \<le> m"
  then have "Suc m \<le> c" by simp
  then have "Suc m * p \<le> c * p" by (rule mult_le_mono1)
  with assms show False by simp
qed

lemma chunk_count_le:
  fixes c p n m :: nat
  assumes "0 < p" "0 < m" "(m - 1) * p < n" "n \<le> c * p"
  shows "m \<le> c"
proof (rule ccontr)
  assume "\<not> m \<le> c"
  then have "c \<le> m - 1" by simp
  then have "c * p \<le> (m - 1) * p" by (rule mult_le_mono1)
  with assms show False by linarith
qed


lemma concat_range_from:
  "0 < p \<Longrightarrow> concat (map (\<lambda>i. py_slice xs i (i + p)) (range_from i (length xs) p)) = drop i xs"
proof (induction i "length xs" p rule: range_from.induct)
  case (1 i step)
  show ?case
  proof (cases "length xs \<le> i")
    case True
    then show ?thesis by (simp add: range_from.simps)
  next
    case False
    with 1 have "concat (map (\<lambda>i. py_slice xs i (i + step)) (range_from (i + step) (length xs) step)) = drop (i + step) xs"
      by simp
    with False 1(2) show ?thesis
      apply (subst range_from.simps)
      apply (simp add: py_slice_def)
      by (metis add.commute append_take_drop_id drop_drop)
  qed
qed

lemma for_each_emit:
  "for_each xs (\<lambda>x. emit (e x)) s = (None, s\<lparr>trace := trace s @ map e xs\<rparr>)"
  by (induction xs arbitrary: s) (simp_all add: pass_def andthen_def emit_def)

lemma for_each_get_ok:
  "\<forall>r \<in> set rs. snd r = None \<Longrightarrow>
   for_each rs async_get s = (None, s\<lparr>trace := trace s @ map (\<lambda>r. PoolGet (fst r)) rs\<rparr>)"
  by (induction rs arbitrary: s) (simp_all add: pass_def andthen_def emit_def async_get_def)

lemma for_each_get_raise:
  "\<forall>r \<in> set rs. snd r = None \<Longrightarrow>
   for_each (rs @ (k, Some x) # rs') async_get s
     = (Some x, s\<lparr>trace := trace s @ map (\<lambda>r. PoolGet (fst r)) rs @ [PoolGet k]\<rparr>)"
  by (induction rs arbitrary: s) (simp_all add: pass_def andthen_def emit_def async_get_def throw_def)

lemma for_each_get_None:
  "for_each rs async_get s = (None, s') \<Longrightarrow> \<forall>r \<in> set rs. snd r = None"
proof (induction rs arbitrary: s)
  case Nil
  then show ?case by simp
next
  case (Cons r rs)
  then show ?case
    by (auto simp: andthen_def emit_def async_get_def throw_def pass_def split: option.splits prod.splits)
qed

lemma for_each_get_trace:
  "\<exists>es. trace (snd (for_each rs async_get s)) = trace s @ map PoolGet es"
proof (induction rs arbitrary: s)
  case Nil
  show ?case by (simp add: pass_def) 
next
  case (Cons r rs)
  show ?case
  proof (cases "snd r")
    case None
    from Cons [of "s\<lparr>trace := trace s @ [PoolGet (fst r)]\<rparr>"]
    obtain es where "trace (snd (for_each rs async_get (s\<lparr>trace := trace s @ [PoolGet (fst r)]\<rparr>)))
        = trace s @ [PoolGet (fst r)] @ map PoolGet es"
      by auto
    then have "trace (snd (for_each (r # rs) async_get s)) = trace s @ map PoolGet (fst r # es)"
      using None by (simp add: andthen_def emit_def async_get_def pass_def)
    then show ?thesis by blast
  next
    case (Some x)
    then have "trace (snd (for_each (r # rs) async_get s)) = trace s @ map PoolGet [fst r]"
      by (simp add: andthen_def emit_def async_get_def throw_def)
    then show ?thesis by blast
  qed
qed

lemma andthen_emit: "andthen (emit e) q s = q (s\<lparr>trace := trace s @ [e]\<rparr>)"
  by (simp add: andthen_def emit_def)

lemma andthen_for_each_emit:
  "andthen (for_each xs (\<lambda>x. emit (e x))) q s = q (s\<lparr>trace := trace s @ map e xs\<rparr>)"
  by (simp add: andthen_def for_each_emit)

lemma cpv_pooled:
  assumes "pooled (glob s) (length xs)"
  shows "conditional_process_video run src xs f s =
     andthen (emit (PoolCreate (cpu_cores (glob s))))
       (andthen (for_each (slices_of (glob s) xs) (\<lambda>c. emit (ApplyAsync f src c ''cpu'')))
       (andthen (for_each (map (\<lambda>(k, c). (k, run f src c ''cpu'')) (enumerate 0 (slices_of (glob s) xs))) async_get)
       (andthen (emit PoolClose) (emit PoolJoin)))) s"
  using assms
  by (simp add: conditional_process_video_def pooled_def py_floordiv_def py_range_def slices_of_def Let_def)

lemma cpv_direct:
  assumes "\<not> pooled (glob s) (length xs)" "cpu_cores (glob s) \<noteq> 0"
  shows "conditional_process_video run src xs f s =
     andthen (emit (ProcessVideo f (source_path (glob s)) xs ''gpu''))
              (case run f (source_path (glob s)) xs ''gpu'' of
                 None \<Rightarrow> pass | Some x \<Rightarrow> throw x) s"
  using assms
  by (auto simp: conditional_process_video_def pooled_def py_floordiv_def)

lemma cpv_pooled_trace:
  assumes "pooled g (length xs)"
  shows "\<exists>es. cpv_trace run g src xs f =
     PoolCreate (cpu_cores g) # map (\<lambda>c. ApplyAsync f src c ''cpu'') (slices_of g xs) @ es
     \<and> (\<forall>e \<in> set es. submitted_by e = [] \<and> pool_of e = [] \<and> work_of e = [])"
proof -
  let ?s1 = "(initial g)\<lparr>trace := [PoolCreate (cpu_cores g)] @ map (\<lambda>c. ApplyAsync f src c ''cpu'') (slices_of g xs)\<rparr>"
  let ?pools = "map (\<lambda>(k, c). (k, run f src c ''cpu'')) (enumerate 0 (slices_of g xs))"
  obtain ks where ks: "trace (snd (for_each ?pools async_get ?s1)) = trace ?s1 @ map PoolGet ks"
    using for_each_get_trace by blast
  have "cpv_trace run g src xs f = trace (snd (andthen (for_each ?pools async_get) (andthen (emit PoolClose) (emit PoolJoin)) ?s1))"
    using assms by (simp add: cpv_trace_def cpv_pooled initial_def andthen_emit andthen_for_each_emit)
  also have "\<dots> = trace ?s1 @ map PoolGet ks @ (if fst (for_each ?pools async_get ?s1) = None then [PoolClose, PoolJoin] else [])"
    using ks by (cases "for_each ?pools async_get ?s1") (auto simp: andthen_def emit_def split: option.splits)
  finally show ?thesis
    by (intro exI [of _ "map PoolGet ks @ (if fst (for_each ?pools async_get ?s1) = None then [PoolClose, PoolJoin] else [])"]) auto
qed


lemma concat_slices_of:
  assumes "0 < int (length xs) div cpu_cores g"
  shows "concat (slices_of g xs) = xs"
proof -
  have "0 < nat (int (length xs) div cpu_cores g)"
    using assms by simp
  then show ?thesis
    using concat_range_from [of "nat (int (length xs) div cpu_cores g)" xs 0]
    by (simp add: slices_of_def chunks_def)
qed

lemma concat_map_Nil:
  "\<forall>e \<in> set es. h e = [] \<Longrightarrow> concat (map h es) = []"
  by (induction es) simp_all

lemma submitted_pooled:
  assumes "pooled g (length xs)"
  shows "submitted (cpv_trace run g src xs f) = slices_of g xs"
proof -
  obtain es where es: "cpv_trace run g src xs f =
       PoolCreate (cpu_cores g) # map (\<lambda>c. ApplyAsync f src c ''cpu'') (slices_of g xs) @ es"
    and none: "\<forall>e \<in> set es. submitted_by e = []"
    using cpv_pooled_trace [OF assms] by blast
  have "concat (map submitted_by (map (\<lambda>c. ApplyAsync f src c ''cpu'') cs)) = cs" for cs
    by (induction cs) simp_all
  then show ?thesis
    by (simp add: es submitted_def concat_map_Nil [OF none])
qed

lemma pools_created_pooled:
  assumes "pooled g (length xs)"
  shows "pools_created (cpv_trace run g src xs f) = [cpu_cores g]"
proof -
  obtain es where es: "cpv_trace run g src xs f =
       PoolCreate (cpu_cores g) # map (\<lambda>c. ApplyAsync f src c ''cpu'') (slices_of g xs) @ es"
    and none: "\<forall>e \<in> set es. pool_of e = []"
    using cpv_pooled_trace [OF assms] by blast
  have "concat (map pool_of (map (\<lambda>c. ApplyAsync f src c ''cpu'') cs)) = []" for cs
    by (induction cs) simp_all
  then show ?thesis
    by (simp add: es pools_created_def concat_map_Nil [OF none])
qed

lemma slices_count:
  assumes "pooled g (length xs)"
  shows "cpu_cores g \<le> int (length (slices_of g xs))"
    and "int (length (slices_of g xs)) = cpu_cores g \<longleftrightarrow> cpu_cores g dvd int (length xs)"
proof -
  define c where "c = nat (cpu_cores g)"
  define p where "p = nat (int (length xs) div cpu_cores g)"
  define n where "n = length xs"
  define m where "m = length (slices_of g xs)"
  from assms have c: "cpu_cores g = int c" "1 < c"
    by (simp_all add: c_def pooled_def)
  from assms have p: "int (length xs) div cpu_cores g = int p" "2 < p"
    unfolding p_def pooled_def by linarith+
  have pdiv: "p = n div c"
    using p(1) c(1) by (simp add: n_def zdiv_int [symmetric])
  have n_pos: "0 < n"
    using p(2) c(2) pdiv by (cases n) simp_all
  have m_eq: "m = length (range_from 0 n p)"
    by (simp add: m_def slices_of_def chunks_def p_def n_def)
  have b: "0 < m" "(m - 1) * p < n" "n \<le> m * p"
    using range_from_bounds [of p 0 n] p(2) n_pos by (simp_all add: m_eq)
  have lower: "c * p \<le> n"
    by (simp add: pdiv)
  have ge: "c \<le> m"
    using chunk_count_ge [of p c n m] p(2) lower b(3) by simp
  show "cpu_cores g \<le> int (length (slices_of g xs))"
    using ge by (simp add: c(1) m_def)
  have "m = c \<longleftrightarrow> c dvd n"
  proof
    assume "m = c"
    with b(3) lower have "n = c * p" by simp
    then show "c dvd n" by simp
  next
    assume "c dvd n"
    then have "n = c * p" by (simp add: pdiv)
    then have "m \<le> c"
      using chunk_count_le [of p m n c] p(2) b(1,2) by simp
    with ge show "m = c" by simp
  qed
  then show "int (length (slices_of g xs)) = cpu_cores g \<longleftrightarrow> cpu_cores g dvd int (length xs)"
    by (simp add: c(1) m_def n_def)
qed

lemma map_get_fst:
  "map (\<lambda>r. PoolGet (fst r)) (map (\<lambda>(k, c). (k, h c)) (enumerate n cs)) = map PoolGet [n..<n + length cs]"
proof -
  have "map (\<lambda>r. PoolGet (fst r)) (map (\<lambda>(k, c). (k, h c)) ys) = map PoolGet (map fst ys)" for ys
    by (induction ys) (simp_all add: case_prod_unfold)
  then show ?thesis
    by (simp only: map_fst_enumerate)
qed

lemma cpv_pooled_run:
  assumes "pooled (glob s) (length xs)"
  shows "conditional_process_video run src xs f s =
     andthen (for_each (map (\<lambda>(k, c). (k, run f src c ''cpu'')) (enumerate 0 (slices_of (glob s) xs))) async_get)
       (andthen (emit PoolClose) (emit PoolJoin))
       (s\<lparr>trace := trace s @ PoolCreate (cpu_cores (glob s))
                  # map (\<lambda>c. ApplyAsync f src c ''cpu'') (slices_of (glob s) xs)\<rparr>)"
  using assms by (simp add: cpv_pooled andthen_emit andthen_for_each_emit)

lemma cpv_pooled_ok:
  assumes "pooled (glob s) (length xs)"
    and "\<forall>c \<in> set (slices_of (glob s) xs). run f src c ''cpu'' = None"
  shows "conditional_process_video run src xs f s =
     (None, s\<lparr>trace := trace s @ PoolCreate (cpu_cores (glob s))
                  # map (\<lambda>c. ApplyAsync f src c ''cpu'') (slices_of (glob s) xs)
                  @ map PoolGet [0..<length (slices_of (glob s) xs)]
                  @ [PoolClose, PoolJoin]\<rparr>)"
proof -
  let ?pools = "map (\<lambda>(k, c). (k, run f src c ''cpu'')) (enumerate 0 (slices_of (glob s) xs))"
  have "\<forall>r \<in> set ?pools. snd r = None"
    using assms(2) by (auto simp: in_set_enumerate_eq)
  then have "for_each ?pools async_get t
      = (None, t\<lparr>trace := trace t @ map PoolGet [0..<length (slices_of (glob s) xs)]\<rparr>)" for t
    using for_each_get_ok [of ?pools t] map_get_fst [of "\<lambda>c. run f src c ''cpu''" 0 "slices_of (glob s) xs"]
    by simp
  then show ?thesis
    by (simp add: cpv_pooled_run [OF assms(1)] andthen_def emit_def)
qed

lemma cpv_pooled_raise:
  assumes "pooled (glob s) (length xs)"
    and "i < length (slices_of (glob s) xs)"
    and "run f src (slices_of (glob s) xs ! i) ''cpu'' = Some x"
    and "\<forall>j < i. run f src (slices_of (glob s) xs ! j) ''cpu'' = None"
  shows "conditional_process_video run src xs f s =
     (Some x, s\<lparr>trace := trace s @ PoolCreate (cpu_cores (glob s))
                  # map (\<lambda>c. ApplyAsync f src c ''cpu'') (slices_of (glob s) xs)
                  @ map PoolGet [0..<Suc i]\<rparr>)"
proof -
  let ?cs = "slices_of (glob s) xs"
  let ?mk = "\<lambda>(k, c). (k, run f src c ''cpu'')"
  let ?pools = "map ?mk (enumerate 0 ?cs)"
  have split: "?cs = take i ?cs @ (?cs ! i) # drop (Suc i) ?cs"
    using assms(2) by (rule id_take_nth_drop)
  have "enumerate 0 ?cs = enumerate 0 (take i ?cs) @ (i, ?cs ! i) # enumerate (Suc i) (drop (Suc i) ?cs)"
    using assms(2) by (subst split) (simp add: enumerate_append_eq del: append_take_drop_id)
  then have pools: "?pools = map ?mk (enumerate 0 (take i ?cs)) @ (i, Some x) # map ?mk (enumerate (Suc i) (drop (Suc i) ?cs))"
    using assms(3) by simp
  have before: "\<forall>r \<in> set (map ?mk (enumerate 0 (take i ?cs))). snd r = None"
    using assms(2,4) by (auto simp: in_set_enumerate_eq)
  have ixs: "map (\<lambda>r. PoolGet (fst r)) (map ?mk (enumerate 0 (take i ?cs))) = map PoolGet [0..<i]"
    using map_get_fst [of "\<lambda>c. run f src c ''cpu''" 0 "take i ?cs"] assms(2) by simp
  have "for_each ?pools async_get t = (Some x, t\<lparr>trace := trace t @ map PoolGet [0..<Suc i]\<rparr>)" for t
    using for_each_get_raise [OF before, of i x _ t] ixs by (simp add: pools)
  then show ?thesis
    by (simp add: cpv_pooled_run [OF assms(1)] andthen_def)
qed

lemma cpv_pooled_None:
  assumes "pooled (glob s) (length xs)"
    and "conditional_process_video run src xs f s = (None, s')"
  shows "\<forall>c \<in> set (slices_of (glob s) xs). run f src c ''cpu'' = None"
proof -
  let ?cs = "slices_of (glob s) xs"
  let ?pools = "map (\<lambda>(k, c). (k, run f src c ''cpu'')) (enumerate 0 ?cs)"
  let ?s1 = "s\<lparr>trace := trace s @ PoolCreate (cpu_cores (glob s))
                  # map (\<lambda>c. ApplyAsync f src c ''cpu'') ?cs\<rparr>"
  obtain r s2 where gets: "for_each ?pools async_get ?s1 = (r, s2)"
    by (cases "for_each ?pools async_get ?s1")
  have "r = None"
    using assms(2) gets by (cases r) (simp_all add: cpv_pooled_run [OF assms(1)] andthen_def)
  with gets have all_none: "\<forall>r \<in> set ?pools. snd r = None"
    using for_each_get_None by blast
  show ?thesis
  proof
    fix c assume "c \<in> set ?cs"
    then obtain k where "k < length ?cs" "?cs ! k = c"
      by (auto simp: in_set_conv_nth)
    then have "(k, run f src c ''cpu'') \<in> set ?pools"
      by (force simp: in_set_enumerate_eq)
    with all_none show "run f src c ''cpu'' = None" by force
  qed
qed

lemma work_pooled:
  assumes "pooled g (length xs)"
  shows "work (cpv_trace run g src xs f) = map (\<lambda>p. (src, p)) xs"
proof -
  obtain es where es: "cpv_trace run g src xs f =
       PoolCreate (cpu_cores g) # map (\<lambda>c. ApplyAsync f src c ''cpu'') (slices_of g xs) @ es"
    and none: "\<forall>e \<in> set es. work_of e = []"
    using cpv_pooled_trace [OF assms] by blast
  have "concat (map work_of (map (\<lambda>c. ApplyAsync f src c ''cpu'') cs)) = map (\<lambda>p. (src, p)) (concat cs)" for cs
    by (induction cs) simp_all
  moreover have "concat (slices_of g xs) = xs"
    using assms by (intro concat_slices_of) (simp add: pooled_def)
  ultimately show ?thesis
    by (simp add: es work_def concat_map_Nil [OF none])
qed

lemma work_direct:
  assumes "\<not> pooled g (length xs)" and "cpu_cores g \<noteq> 0"
  shows "work (cpv_trace run g src xs f) = map (\<lambda>p. (source_path g, p)) xs"
proof -
  have "\<not> pooled (glob (initial g)) (length xs)" "cpu_cores (glob (initial g)) \<noteq> 0"
    using assms by (simp_all add: initial_def)
  then show ?thesis
    by (simp add: cpv_trace_def cpv_direct andthen_emit work_def pass_def throw_def
      split: option.splits) (simp add: initial_def)
qed



section \<open>Results about conditional_process_video\<close>

text \<open>
  Claim C2, as stated, says that the pooled branch creates a pool of exactly
  \<^verbatim>\<open>cpu_cores\<close> processes and submits exactly \<^verbatim>\<open>cpu_cores\<close> chunks. The pool size
  is right, the chunk count is not: seven frames on two cores give a chunk size of three
  and the three chunks of \<^verbatim>\<open>range(0, 7, 3)\<close>.
\<close>

theorem cpv_chunk_count_counterexample:
  "pooled a_globals (length frames7)
   \<and> int (length (submitted (cpv_trace never_raises a_globals (Some ''face.jpg'') frames7 FaceSwapper)))
       \<noteq> cpu_cores a_globals"
  by code_simp


text \<open>
  Claim C2, amended. In the pooled branch exactly one pool is created, of
  \<^verbatim>\<open>cpu_cores\<close> processes; the number of chunks submitted is at least \<^verbatim>\<open>cpu_cores\<close>,
  and it is \<^verbatim>\<open>cpu_cores\<close> exactly when \<^verbatim>\<open>cpu_cores\<close> divides the number of frames.
  This holds whatever the workers do.
\<close>

theorem cpv_pool_size_and_chunk_count:
  assumes "pooled g (length xs)"
  shows "pools_created (cpv_trace run g src xs f) = [cpu_cores g]
     \<and> cpu_cores g \<le> int (length (submitted (cpv_trace run g src xs f)))
     \<and> (int (length (submitted (cpv_trace run g src xs f))) = cpu_cores g
          \<longleftrightarrow> cpu_cores g dvd int (length xs))"
  using pools_created_pooled [OF assms] slices_count [OF assms]
  by (simp add: submitted_pooled [OF assms])

theorem cpv_pool_size_and_chunk_count_witness: 
  "pooled a_globals (length frames7)
   \<and> pools_created (cpv_trace never_raises a_globals (Some ''face.jpg'') frames7 FaceSwapper) = [2]
   \<and> length (submitted (cpv_trace never_raises a_globals (Some ''face.jpg'') frames7 FaceSwapper)) = 3
   \<and> \<not> cpu_cores a_globals dvd int (length frames7)"
proof -
  have h: "pooled a_globals (length frames7)" by code_simp
  have c: "cpu_cores a_globals = 2" by (simp add: a_globals_def)
  have l: "length frames7 = 7" by (simp add: frames7_def)
  have s: "length (submitted (cpv_trace never_raises a_globals (Some ''face.jpg'') frames7 FaceSwapper)) = 3"
    by code_simp
  show ?thesis
    using h cpv_pool_size_and_chunk_count [OF h, of never_raises "Some ''face.jpg''" FaceSwapper] s
    by (simp add: c l)
qed


lemma slices_partition:
  assumes "xs \<noteq> []" and "1 \<le> cpu_cores g"
    and "py_floordiv (int (length xs)) (cpu_cores g) = Inr pool_amount"
    and "1 \<le> pool_amount"
    and "py_range 0 (length xs) pool_amount = Inr idxs"
  shows "chunks xs idxs pool_amount = slices_of g xs" and "concat (chunks xs idxs pool_amount) = xs"
proof -
  from assms(2,3) have pa: "pool_amount = int (length xs) div cpu_cores g"
    by (simp add: py_floordiv_def split: if_splits)
  from assms(4,5) have idxs: "idxs = range_from 0 (length xs) (nat pool_amount)"
    by (simp add: py_range_def split: if_splits)
  show eq: "chunks xs idxs pool_amount = slices_of g xs"
    by (simp add: slices_of_def idxs pa)
  have "concat (slices_of g xs) = xs"
    using assms(4) by (intro concat_slices_of) (simp add: pa)
  then show "concat (chunks xs idxs pool_amount) = xs"
    by (simp add: eq)
qed

text \<open>
  Claim C3, as stated, covers every non-empty list with \<^verbatim>\<open>cpu_cores\<close> at least one
  and a chunk size of at least one. Line 152 submits slices only when the chunk size
  exceeds two, \<^verbatim>\<open>cpu_cores\<close> exceeds one and no GPU vendor is set: seven frames on one
  core give the chunk size seven, the direct branch runs, and no slice is submitted, so
  the submitted slices do not make up the list.
\<close>

theorem cpv_chunks_partition_counterexample:
  "frames7 \<noteq> []
   \<and> 1 \<le> cpu_cores one_core_globals
   \<and> py_floordiv (int (length frames7)) (cpu_cores one_core_globals) = Inr 7
   \<and> submitted (cpv_trace never_raises one_core_globals (Some ''face.jpg'') frames7 FaceSwapper) = []
   \<and> concat (submitted (cpv_trace never_raises one_core_globals (Some ''face.jpg'') frames7
                  FaceSwapper)) \<noteq> frames7"
  by code_simp

text \<open>
  Claim C3, amended. Whenever the pooled branch is taken, the chunks submitted to the
  pool are the slices \<^verbatim>\<open>temp_frame_paths[i:i + pool_amount]\<close> for \<open>i\<close> in
  \<^verbatim>\<open>range(0, len, pool_amount)\<close>, in this order, and concatenated in submission order
  they are the original list: every frame path is in exactly one chunk and the order is
  kept. This holds whatever the workers do.
\<close>

theorem cpv_chunks_partition:
  assumes "pooled g (length xs)"
  shows "submitted (cpv_trace run g src xs f) = slices_of g xs
     \<and> concat (submitted (cpv_trace run g src xs f)) = xs"
proof -
  have "concat (slices_of g xs) = xs"
    using assms by (intro concat_slices_of) (simp add: pooled_def)
  then show ?thesis
    by (simp add: submitted_pooled [OF assms])
qed

theorem cpv_chunks_partition_witness:
  "pooled a_globals (length frames7)
   \<and> submitted (cpv_trace never_raises a_globals (Some ''face.jpg'') frames7 FaceSwapper)
       = [[''1.png'', ''2.png'', ''3.png''], [''4.png'', ''5.png'', ''6.png''], [''7.png'']]
   \<and> concat (submitted (cpv_trace never_raises a_globals (Some ''face.jpg'') frames7 FaceSwapper))
       = frames7"
proof -
  have h: "pooled a_globals (length frames7)" by code_simp
  have sl: "slices_of a_globals frames7
      = [[''1.png'', ''2.png'', ''3.png''], [''4.png'', ''5.png'', ''6.png''], [''7.png'']]"
    by code_simp
  note t = cpv_chunks_partition [OF h, of never_raises "Some ''face.jpg''" FaceSwapper]
  have a: "submitted (cpv_trace never_raises a_globals (Some ''face.jpg'') frames7 FaceSwapper)
       = [[''1.png'', ''2.png'', ''3.png''], [''4.png'', ''5.png'', ''6.png''], [''7.png'']]"
    using t by (simp add: sl)
  have b: "concat (submitted (cpv_trace never_raises a_globals (Some ''face.jpg'') frames7
                     FaceSwapper)) = frames7"
    using t by blast
  from h a b show ?thesis by blast
qed

text \<open>
  Claim C4. Whenever the pooled branch returns normally, the parent has created the
  pool, submitted every chunk, called \<^verbatim>\<open>get\<close> once on every async result in submission
  order, and then closed and joined the pool; and every worker has finished its chunk
  without raising. A call that does not return normally raises, and \<open>andthen\<close> runs
  nothing after it, so no later stage starts while a chunk is unfinished.
\<close>

theorem cpv_returns_after_all_gets:
  assumes "pooled g (length xs)" and "cpv_outcome run g src xs f = None"
  shows "cpv_trace run g src xs f =
           PoolCreate (cpu_cores g)
           # map (\<lambda>c. ApplyAsync f src c ''cpu'') (slices_of g xs)
           @ map PoolGet [0..<length (slices_of g xs)]
           @ [PoolClose, PoolJoin]
     \<and> (\<forall>c \<in> set (slices_of g xs). run f src c ''cpu'' = None)"
proof -
  have p: "pooled (glob (initial g)) (length xs)"
    using assms(1) by (simp add: initial_def)
  obtain s' where "conditional_process_video run src xs f (initial g) = (None, s')"
    using assms(2) by (cases "conditional_process_video run src xs f (initial g)") (simp add: cpv_outcome_def)
  then have fin: "\<forall>c \<in> set (slices_of (glob (initial g)) xs). run f src c ''cpu'' = None"
    by (rule cpv_pooled_None [OF p])
  show ?thesis
    using fin cpv_pooled_ok [where s = "initial g" and run = run and f = f and src = src, OF p fin]
    by (simp add: cpv_trace_def initial_def)
qed

theorem cpv_returns_after_all_gets_witness:
  "pooled a_globals (length frames7)
   \<and> cpv_outcome never_raises a_globals (Some ''face.jpg'') frames7 FaceSwapper = None
   \<and> cpv_trace never_raises a_globals (Some ''face.jpg'') frames7 FaceSwapper =
       [PoolCreate 2,
        ApplyAsync FaceSwapper (Some ''face.jpg'') [''1.png'', ''2.png'', ''3.png''] ''cpu'',
        ApplyAsync FaceSwapper (Some ''face.jpg'') [''4.png'', ''5.png'', ''6.png''] ''cpu'',
        ApplyAsync FaceSwapper (Some ''face.jpg'') [''7.png''] ''cpu'',
        PoolGet 0, PoolGet 1, PoolGet 2, PoolClose, PoolJoin]"
proof -
  have h: "pooled a_globals (length frames7)" by code_simp
  have o: "cpv_outcome never_raises a_globals (Some ''face.jpg'') frames7 FaceSwapper = None"
    by code_simp
  have sl: "slices_of a_globals frames7
      = [[''1.png'', ''2.png'', ''3.png''], [''4.png'', ''5.png'', ''6.png''], [''7.png'']]"
    by code_simp
  have c: "cpu_cores a_globals = 2" by (simp add: a_globals_def)
  have u: "[0..<3] = [0, 1, 2]" by (simp add: upt_rec)
  show ?thesis
    using h o cpv_returns_after_all_gets [OF h o] by (simp add: sl c u)
qed


text \<open>
  Claim C5. If the worker of chunk \<open>i\<close> raises and the workers of the chunks before it
  do not, the pooled branch raises the same exception. Every chunk has been submitted
  exactly once before, the results up to chunk \<open>i\<close> have been asked for, and nothing
  else happens: no chunk is submitted again, the pool is neither closed, joined nor
  terminated, and no result after chunk \<open>i\<close> is retrieved.
\<close>

theorem cpv_worker_exception_propagates:
  assumes "pooled g (length xs)"
    and "i < length (slices_of g xs)"
    and "run f src (slices_of g xs ! i) ''cpu'' = Some x"
    and "\<forall>j < i. run f src (slices_of g xs ! j) ''cpu'' = None"
  shows "cpv_outcome run g src xs f = Some x
     \<and> cpv_trace run g src xs f =
           PoolCreate (cpu_cores g)
           # map (\<lambda>c. ApplyAsync f src c ''cpu'') (slices_of g xs)
           @ map PoolGet [0..<Suc i]"
proof -
  have g: "glob (initial g) = g" and t: "trace (initial g) = []"
    by (simp_all add: initial_def)
  have "conditional_process_video run src xs f (initial g) =
     (Some x, (initial g)\<lparr>trace := trace (initial g) @ PoolCreate (cpu_cores (glob (initial g)))
                  # map (\<lambda>c. ApplyAsync f src c ''cpu'') (slices_of (glob (initial g)) xs)
                  @ map PoolGet [0..<Suc i]\<rparr>)"
    using assms by (intro cpv_pooled_raise) (simp_all only: g)
  then show ?thesis
    by (simp add: cpv_outcome_def cpv_trace_def g t)
qed

theorem cpv_worker_exception_propagates_witness:
  "pooled a_globals (length frames7)
   \<and> raises_on_5 FaceSwapper (Some ''face.jpg'') (slices_of a_globals frames7 ! 1) ''cpu'' = Some (Raised ''no face'')
   \<and> cpv_outcome raises_on_5 a_globals (Some ''face.jpg'') frames7 FaceSwapper = Some (Raised ''no face'')
   \<and> cpv_trace raises_on_5 a_globals (Some ''face.jpg'') frames7 FaceSwapper =
       [PoolCreate 2,
        ApplyAsync FaceSwapper (Some ''face.jpg'') [''1.png'', ''2.png'', ''3.png''] ''cpu'',
        ApplyAsync FaceSwapper (Some ''face.jpg'') [''4.png'', ''5.png'', ''6.png''] ''cpu'',
        ApplyAsync FaceSwapper (Some ''face.jpg'') [''7.png''] ''cpu'',
        PoolGet 0, PoolGet 1]"
proof -
  have h: "pooled a_globals (length frames7)" by code_simp
  have sl: "slices_of a_globals frames7
      = [[''1.png'', ''2.png'', ''3.png''], [''4.png'', ''5.png'', ''6.png''], [''7.png'']]"
    by code_simp
  have i: "1 < length (slices_of a_globals frames7)" by (simp add: sl)
  have r: "raises_on_5 FaceSwapper (Some ''face.jpg'') (slices_of a_globals frames7 ! 1) ''cpu'' = Some (Raised ''no face'')"
    by (simp add: sl raises_on_5_def)
  have b: "\<forall>j < 1. raises_on_5 FaceSwapper (Some ''face.jpg'') (slices_of a_globals frames7 ! j) ''cpu'' = None"
    by (simp add: sl raises_on_5_def)
  have c: "cpu_cores a_globals = 2" by (simp add: a_globals_def)
  have u: "[0..<Suc 1] = [0, 1]" by (simp add: upt_rec)
  show ?thesis
    using h r cpv_worker_exception_propagates
      [where run = raises_on_5 and f = FaceSwapper and src = "Some ''face.jpg''", OF h i r b] by (simp add: sl c u)
qed


section \<open>Results about pre_check\<close>

lemma andthen_guard_fun:
  "andthen (if c then quit m else pass) q = (\<lambda>s. if c then (Some (SystemExit m), s) else q s)"
  by (rule ext) (simp add: andthen_def quit_def throw_def pass_def)

lemma guard_last_fun:
  "(if c then quit m else pass) = (\<lambda>s. if c then (Some (SystemExit m), s) else (None, s))"
  by (rule ext) (simp add: quit_def throw_def pass_def)

lemma andthen_pass: "andthen pass q s = q s"
  by (simp add: andthen_def pass_def)

lemma andthen_quit: "andthen (quit m) q s = (Some (SystemExit m), s)"
  by (simp add: andthen_def quit_def throw_def)

lemma lookup_torch_fun:
  "andthen (lookup_torch r) q =
     (\<lambda>s. if torch_bound r then q s else (Some (NameError ''torch''), s))"
  by (rule ext) (simp add: lookup_torch_def andthen_def pass_def throw_def)

lemma pre_check_unsupported:
  assumes "unsupported r (glob s)" and "torch_bound r \<or> gpu_vendor (glob s) \<noteq> Some ''nvidia''"
  shows "is_quit_with_message (fst (pre_check r s))" and "snd (pre_check r s) = s"
proof -
  have "unsupported r (glob s) \<longrightarrow> torch_bound r \<or> gpu_vendor (glob s) \<noteq> Some ''nvidia''
      \<longrightarrow> is_quit_with_message (fst (pre_check r s)) \<and> snd (pre_check r s) = s"
    apply (simp only: pre_check_def andthen_guard_fun lookup_torch_fun)
    apply (simp only: guard_last_fun)
    apply (simp add: unsupported_def accelerator_unavailable_def is_quit_with_message_def pass_def)
    done
  with assms show "is_quit_with_message (fst (pre_check r s))" and "snd (pre_check r s) = s"
    by simp_all
qed

lemma pre_check_supported:
  assumes "\<not> unsupported r (glob s)" and "torch_bound r \<or> gpu_vendor (glob s) \<noteq> Some ''nvidia''"
  shows "pre_check r s = (None, s)"
proof -
  have "\<not> unsupported r (glob s) \<longrightarrow> torch_bound r \<or> gpu_vendor (glob s) \<noteq> Some ''nvidia''
      \<longrightarrow> pre_check r s = (None, s)"
    apply (simp only: pre_check_def andthen_guard_fun lookup_torch_fun)
    apply (simp only: guard_last_fun)
    apply (simp add: unsupported_def accelerator_unavailable_def pass_def)
    done
  with assms show ?thesis by simp
qed

text \<open>
  Where the name \<^verbatim>\<open>torch\<close> is bound, or the GPU vendor is not \<^verbatim>\<open>nvidia\<close>,
  \<^verbatim>\<open>pre_check\<close> quits with a message, before any other effect, exactly in the
  unsupported environments, and returns normally in every other.
\<close>

lemma pre_check_when_torch_bound:
  assumes "torch_bound r \<or> gpu_vendor g \<noteq> Some ''nvidia''"
  shows "(unsupported r g \<longrightarrow> is_quit_with_message (pre_check_outcome r g))
     \<and> (\<not> unsupported r g \<longrightarrow> pre_check_outcome r g = None)
     \<and> pre_check_trace r g = []"
proof (cases "unsupported r g")
  case True
  then have u: "unsupported r (glob (initial g))" by (simp add: initial_def)
  have b: "torch_bound r \<or> gpu_vendor (glob (initial g)) \<noteq> Some ''nvidia''"
    using assms by (simp add: initial_def)
  from pre_check_unsupported [OF u b] True show ?thesis
    by (simp add: pre_check_outcome_def pre_check_trace_def initial_def)
next
  case False
  then have u: "\<not> unsupported r (glob (initial g))" by (simp add: initial_def)
  have b: "torch_bound r \<or> gpu_vendor (glob (initial g)) \<noteq> Some ''nvidia''"
    using assms by (simp add: initial_def)
  from pre_check_supported [OF u b] False show ?thesis
    by (simp add: pre_check_outcome_def pre_check_trace_def initial_def)
qed

lemma pre_check_examples:
  "unsupported cuda12_runtime nvidia_globals
   \<and> pre_check_outcome cuda12_runtime nvidia_globals
       = Some (SystemExit (Some ''CUDA version 12.1 is not supported - please downgrade to 11.8''))
   \<and> \<not> unsupported a_runtime nvidia_globals
   \<and> pre_check_outcome a_runtime nvidia_globals = None"
proof -
  have u: "unsupported cuda12_runtime nvidia_globals"
    by (simp add: unsupported_def accelerator_unavailable_def cuda12_runtime_def a_runtime_def
        nvidia_globals_def a_globals_def truthy_def)
  have v: "\<not> unsupported a_runtime nvidia_globals"
    by (simp add: unsupported_def accelerator_unavailable_def a_runtime_def
        nvidia_globals_def a_globals_def truthy_def)
  have b: "torch_bound a_runtime" "torch_bound cuda12_runtime"
    by (simp_all add: torch_bound_def cuda12_runtime_def a_runtime_def)
  have m: "pre_check_outcome cuda12_runtime nvidia_globals
       = Some (SystemExit (Some ''CUDA version 12.1 is not supported - please downgrade to 11.8''))"
    by (simp add: pre_check_outcome_def pre_check_def lookup_torch_def torch_bound_def andthen_def
        quit_def throw_def pass_def initial_def cuda12_runtime_def a_runtime_def
        nvidia_globals_def a_globals_def truthy_def)
  show ?thesis
    using u v m pre_check_when_torch_bound [of a_runtime nvidia_globals] b(1)
    by simp
qed

text \<open>
  Where the name has been deleted and the GPU vendor is \<^verbatim>\<open>nvidia\<close>, a run that gets
  past the tests of the Python version and of ffmpeg raises \<^verbatim>\<open>NameError\<close> at line 138.
\<close>

lemma pre_check_torch_deleted:
  assumes "\<not> version_info r < [3, 9]" and "truthy (which_ffmpeg r)"
    and "gpu_vendor g = Some ''nvidia''" and "\<not> torch_bound r"
  shows "pre_check_outcome r g = Some (NameError ''torch'')"
proof -
  have "pre_check r (initial g) = (Some (NameError ''torch''), initial g)"
    apply (simp only: pre_check_def andthen_guard_fun lookup_torch_fun)
    apply (simp add: assms initial_def)
    done
  then show ?thesis by (simp add: pre_check_outcome_def)
qed

text \<open>
  Claim C7 says that \<^verbatim>\<open>pre_check\<close> quits with a printed message whenever the
  environment is unsupported, among others when CUDA is unavailable for the GPU vendor
  \<^verbatim>\<open>nvidia\<close>, and returns normally otherwise. On a machine with the ROCM provider and
  without CUDA, lines 32 and 33 have deleted the name \<^verbatim>\<open>torch\<close>; with
  \<^verbatim>\<open>--gpu-vendor nvidia\<close> the configuration that \<^verbatim>\<open>parse_args\<close> leaves has this vendor,
  the environment is unsupported, and \<^verbatim>\<open>pre_check\<close> neither quits with its message nor
  returns: line 138 raises \<^verbatim>\<open>NameError\<close>.
\<close>

theorem pre_check_name_error_after_del_torch:
  "gpu_vendor (parse_args nvidia_args rocm_globals) = Some ''nvidia''
   \<and> providers (parse_args nvidia_args rocm_globals) = providers_at_import rocm_runtime
   \<and> cuda_is_available rocm_runtime = False
   \<and> pre_check_outcome rocm_runtime (parse_args nvidia_args rocm_globals)
       = Some (NameError ''torch'')
   \<and> is_quit_with_message
         (pre_check_outcome rocm_runtime (parse_args nvidia_args rocm_globals)) = False"
proof -
  have v: "gpu_vendor (parse_args nvidia_args rocm_globals) = Some ''nvidia''"
    and p: "providers (parse_args nvidia_args rocm_globals) = providers_at_import rocm_runtime"
    by (simp_all add: parse_args_def select_provider_def assign_args_def nvidia_args_def
        directml_args_def rocm_globals_def rocm_runtime_def a_globals_def truthy_def Let_def)
  have r: "\<not> version_info rocm_runtime < [3, 9]" "truthy (which_ffmpeg rocm_runtime)"
    "\<not> torch_bound rocm_runtime" "cuda_is_available rocm_runtime = False"
    by (simp_all add: rocm_runtime_def a_runtime_def truthy_def torch_bound_def)
  have o: "pre_check_outcome rocm_runtime (parse_args nvidia_args rocm_globals)
       = Some (NameError ''torch'')"
    using r(1,2) v r(3) by (rule pre_check_torch_deleted)
  show ?thesis
    using v p r(4) o by (simp add: is_quit_with_message_def)
qed

text \<open>The environment of this run is among the unsupported ones: CUDA is unavailable
  for the selected vendor.\<close>

lemma rocm_environment_unsupported:
  "unsupported rocm_runtime (parse_args nvidia_args rocm_globals)"
proof -
  have "gpu_vendor (parse_args nvidia_args rocm_globals) = Some ''nvidia''"
    by (simp add: parse_args_def select_provider_def assign_args_def nvidia_args_def
        directml_args_def rocm_globals_def a_globals_def truthy_def Let_def)
  moreover have "\<not> cuda_is_available rocm_runtime"
    by (simp add: rocm_runtime_def a_runtime_def)
  ultimately show ?thesis
    by (simp add: unsupported_def accelerator_unavailable_def)
qed

section \<open>Results about start\<close>

lemma andthen_assoc: "andthen (andthen p q) r = andthen p (andthen q r)"
  by (rule ext) (simp add: andthen_def split: prod.splits option.splits)

lemma start_passes:
  assumes "passes_source_checks w (glob s)"
  shows "start w s =
     (if has_image_extension w (target_path (glob s)) then image_to_image w else image_to_videos w)
       (s\<lparr>trace := trace s @ [CreateTemp (target_path (glob s))]\<rparr>)"
  using assms by (simp add: start_def with_glob_def passes_source_checks_def andthen_emit)

lemma start_early:
  assumes "\<not> passes_source_checks w (glob s)"
  shows "\<exists>m. start w s = (None, s\<lparr>trace := trace s @ [OnChangeStatus m]\<rparr>)"
  using assms by (auto simp: start_def with_glob_def passes_source_checks_def update_status_def emit_def)

lemma destroy_run:
  "destroy s = (Some (SystemExit None),
      if truthy (target_path (glob s)) then s\<lparr>trace := trace s @ [CleanTemp (target_path (glob s))]\<rparr> else s)"
  by (simp add: destroy_def with_glob_def andthen_emit andthen_pass quit_def throw_def)

lemma image_nsfw:
  assumes "glob s = g" and "predict_image w (target_path g) > 0.85"
  shows "image_to_image w s = destroy s"
  using assms by (simp add: image_to_image_def with_glob_def Let_def andthen_def destroy_run)

lemma videos_nsfw:
  assumes "glob s = g" and "list_ex (\<lambda>p. p > 0.85) (predict_video_frames w (target_path g))"
  shows "image_to_videos w s = destroy s"
  using assms by (simp add: image_to_videos_def with_glob_def Let_def andthen_def destroy_run)

lemma andthen_outcome:
  "andthen (case out of None \<Rightarrow> pass | Some x \<Rightarrow> throw x) q s
     = (case out of None \<Rightarrow> q s | Some x \<Rightarrow> (Some x, s))"
  by (simp add: andthen_def pass_def throw_def split: option.splits)

lemma andthen_process_image:
  "andthen (process_image w f src a b) q s =
     (case process_image_of w f src a b of
        None \<Rightarrow> q (s\<lparr>trace := trace s @ [ProcessImage f src a b]\<rparr>)
      | Some x \<Rightarrow> (Some x, s\<lparr>trace := trace s @ [ProcessImage f src a b]\<rparr>))"
  by (simp add: process_image_def andthen_assoc andthen_emit andthen_outcome)

lemma andthen_shutil_move:
  "andthen (shutil_move w a dst) q s =
     (case dst of
        None \<Rightarrow> (Some TypeError, s\<lparr>trace := trace s @ [ShutilMove a dst]\<rparr>)
      | Some d \<Rightarrow>
          (case shutil_move_of w a d of
             None \<Rightarrow> q (s\<lparr>trace := trace s @ [ShutilMove a dst]\<rparr>)
           | Some x \<Rightarrow> (Some x, s\<lparr>trace := trace s @ [ShutilMove a dst]\<rparr>)))"
  by (cases dst; cases "shutil_move_of w a (the dst)")
     (simp_all add: shutil_move_def andthen_def emit_def pass_def throw_def)

lemma image_run:
  assumes "glob s = g" and "\<not> predict_image w (target_path g) > 0.85"
  shows "(fst (image_to_image w s) = None \<longrightarrow>
     filter is_image_step (trace (snd (image_to_image w s))) =
       filter is_image_step (trace s)
       @ [CopyTempImage (target_path g)]
       @ (if ''face-swapper'' \<in> set (frame_processors g)
          then [ProcessImage FaceSwapper (source_path g)
                  (copy_temp_image w (target_path g)) (copy_temp_image w (target_path g))]
          else [])
       @ (if gpu_vendor g = Some ''nvidia'' \<and> ''face-enhancer'' \<in> set (frame_processors g)
          then [ProcessImage FaceEnhancer (source_path g)
                  (copy_temp_image w (target_path g)) (copy_temp_image w (target_path g))]
          else [])
       @ (if temp_isfile w (copy_temp_image w (target_path g))
          then [ShutilMove (copy_temp_image w (target_path g)) (output_path g)]
          else [])
     \<and> (temp_isfile w (copy_temp_image w (target_path g)) \<longrightarrow>
         (\<exists>out. output_path g = Some out
            \<and> shutil_move_of w (copy_temp_image w (target_path g)) out = None)))
   \<and> ((''face-swapper'' \<in> set (frame_processors g) \<longrightarrow>
         process_image_of w FaceSwapper (source_path g)
           (copy_temp_image w (target_path g)) (copy_temp_image w (target_path g)) = None)
     \<and> (gpu_vendor g = Some ''nvidia'' \<and> ''face-enhancer'' \<in> set (frame_processors g) \<longrightarrow>
         process_image_of w FaceEnhancer (source_path g)
           (copy_temp_image w (target_path g)) (copy_temp_image w (target_path g)) = None)
     \<and> (temp_isfile w (copy_temp_image w (target_path g)) \<longrightarrow>
         (\<exists>out. output_path g = Some out
            \<and> shutil_move_of w (copy_temp_image w (target_path g)) out = None))
     \<longrightarrow> fst (image_to_image w s) = None)"
proof -
  define final where "final = (if is_image w (target_path g)
                then update_status ''Processing to image succeed!''
                else update_status ''Processing to image failed!'')"
  have fin: "final t = (None, t\<lparr>trace := trace t @ [OnChangeStatus
      (if is_image w (target_path g) then ''Status: Processing to image succeed!''
       else ''Status: Processing to image failed!'')]\<rparr>)" for t
    by (simp add: final_def update_status_def emit_def)
  have "image_to_image w s =
     andthen (if ''face-swapper'' \<in> set (frame_processors g)
                then andthen (update_status ''Swapping in progress...'')
                       (process_image w FaceSwapper (source_path g)
                          (copy_temp_image w (target_path g)) (copy_temp_image w (target_path g)))
                else pass)
      (andthen (if gpu_vendor g = Some ''nvidia'' \<and> ''face-enhancer'' \<in> set (frame_processors g)
                then andthen (update_status ''Enhancing in progress...'')
                       (process_image w FaceEnhancer (source_path g)
                          (copy_temp_image w (target_path g)) (copy_temp_image w (target_path g)))
                else pass)
      (andthen (if temp_isfile w (copy_temp_image w (target_path g))
                then shutil_move w (copy_temp_image w (target_path g)) (output_path g)
                else pass)
               final))
      (s\<lparr>trace := trace s @ [CopyTempImage (target_path g)]\<rparr>)"
    using assms
    by (simp only: image_to_image_def with_glob_def Let_def final_def if_False andthen_pass andthen_emit)
  then show ?thesis
    by (simp add: andthen_assoc andthen_pass andthen_emit andthen_process_image andthen_shutil_move
        update_status_def fin split: option.splits)
qed

lemmas world_defs = a_world_def nsfw_world_def image_globals_def video_globals_def a_globals_def
  frames7_def never_raises_def

lemmas run_defs = start_def image_to_image_def image_to_videos_def destroy_def with_glob_def
  process_image_def shutil_move_def
  update_status_def release_resources_def set_gpu_threads_def quit_def
  andthen_def emit_def pass_def throw_def initial_def Let_def truthy_def

text \<open>
  Claim C8, as stated, says that for an image target that passes the checks the face
  enhancer runs when \<^verbatim>\<open>face-enhancer\<close> is among the selected frame processors. Line 196
  also asks for the GPU vendor \<^verbatim>\<open>nvidia\<close>: with both processors selected and no GPU
  vendor, only the face swapper runs.
\<close>

theorem start_image_steps_counterexample:
  "passes_source_checks a_world image_globals
   \<and> has_image_extension a_world (target_path image_globals)
   \<and> \<not> nsfw a_world image_globals
   \<and> ''face-enhancer'' \<in> set (frame_processors image_globals)
   \<and> filter runs_processor (start_trace a_world image_globals)
       = [ProcessImage FaceSwapper (Some ''face.jpg'') ''temp/target.png'' ''temp/target.png'']"
  by (simp add: passes_source_checks_def nsfw_def start_trace_def world_defs run_defs)

text \<open>
  Claim C8, amended. For an image target that passes the source-face and NSFW checks,
  every run of \<^verbatim>\<open>start\<close> that returns normally has taken these steps on the temporary
  copy, in this order: the copy itself, the face swapper once when \<^verbatim>\<open>face-swapper\<close> is
  selected, the face enhancer once when \<^verbatim>\<open>face-enhancer\<close> is selected and the GPU vendor
  is \<^verbatim>\<open>nvidia\<close>, and the move of the temporary image to the output path when the
  temporary image is a file; in that case an output path is set and the move has
  succeeded. The run returns normally when no processor that runs raises and, if the
  temporary image is a file, an output path is set and the move to it does not raise.
\<close>

theorem start_image_steps:
  assumes "passes_source_checks w g"
    and "has_image_extension w (target_path g)"
    and "\<not> nsfw w g"
  shows "(start_outcome w g = None \<longrightarrow>
           filter is_image_step (start_trace w g) =
             [CopyTempImage (target_path g)]
             @ (if ''face-swapper'' \<in> set (frame_processors g)
                then [ProcessImage FaceSwapper (source_path g)
                        (copy_temp_image w (target_path g)) (copy_temp_image w (target_path g))]
                else [])
             @ (if gpu_vendor g = Some ''nvidia'' \<and> ''face-enhancer'' \<in> set (frame_processors g)
                then [ProcessImage FaceEnhancer (source_path g)
                        (copy_temp_image w (target_path g)) (copy_temp_image w (target_path g))]
                else [])
             @ (if temp_isfile w (copy_temp_image w (target_path g))
                then [ShutilMove (copy_temp_image w (target_path g)) (output_path g)]
                else [])
           \<and> (temp_isfile w (copy_temp_image w (target_path g)) \<longrightarrow>
                (\<exists>out. output_path g = Some out
                   \<and> shutil_move_of w (copy_temp_image w (target_path g)) out = None)))
     \<and> ((''face-swapper'' \<in> set (frame_processors g) \<longrightarrow>
           process_image_of w FaceSwapper (source_path g)
             (copy_temp_image w (target_path g)) (copy_temp_image w (target_path g)) = None)
          \<and> (gpu_vendor g = Some ''nvidia'' \<and> ''face-enhancer'' \<in> set (frame_processors g) \<longrightarrow>
               process_image_of w FaceEnhancer (source_path g)
                 (copy_temp_image w (target_path g)) (copy_temp_image w (target_path g)) = None)
          \<and> (temp_isfile w (copy_temp_image w (target_path g)) \<longrightarrow>
               (\<exists>out. output_path g = Some out
                  \<and> shutil_move_of w (copy_temp_image w (target_path g)) out = None))
         \<longrightarrow> start_outcome w g = None)"
proof -
  let ?s = "(initial g)\<lparr>trace := trace (initial g) @ [CreateTemp (target_path (glob (initial g)))]\<rparr>"
  have p: "passes_source_checks w (glob (initial g))" using assms(1) by (simp add: initial_def)
  have run: "start w (initial g) = image_to_image w ?s"
    using assms(2) by (simp add: start_passes [OF p]) (simp add: initial_def)
  have gs: "glob ?s = g" by (simp add: initial_def)
  have ok: "\<not> predict_image w (target_path g) > 0.85"
    using assms(2,3) unfolding nsfw_def by (simp only: if_True) simp
  have tr: "filter is_image_step (trace ?s) = []" by (simp add: initial_def)
  have out: "start_outcome w g = fst (image_to_image w ?s)"
    and trc: "start_trace w g = trace (snd (image_to_image w ?s))"
    by (simp_all only: start_outcome_def start_trace_def run)
  show ?thesis
    using image_run [OF gs ok]
    by (simp only: out trc tr append_Nil)
qed

theorem start_image_steps_witness:
  "passes_source_checks a_world image_globals
   \<and> has_image_extension a_world (target_path image_globals)
   \<and> \<not> nsfw a_world image_globals
   \<and> start_outcome a_world image_globals = None
   \<and> filter is_image_step (start_trace a_world image_globals)
       = [CopyTempImage (Some ''target.png''),
          ProcessImage FaceSwapper (Some ''face.jpg'') ''temp/target.png'' ''temp/target.png'',
          ShutilMove ''temp/target.png'' (Some ''out.png'')]"
proof -
  have p: "passes_source_checks a_world image_globals"
    by (simp add: passes_source_checks_def world_defs truthy_def)
  have i: "has_image_extension a_world (target_path image_globals)"
    by (simp add: world_defs)
  have n: "\<not> nsfw a_world image_globals"
    by (simp add: nsfw_def world_defs)
  note t = start_image_steps [OF p i n]
  have o: "start_outcome a_world image_globals = None"
    using t by (simp add: world_defs)
  have "filter is_image_step (start_trace a_world image_globals)
       = [CopyTempImage (Some ''target.png''),
          ProcessImage FaceSwapper (Some ''face.jpg'') ''temp/target.png'' ''temp/target.png'',
          ShutilMove ''temp/target.png'' (Some ''out.png'')]"
    using t o by (simp add: world_defs)
  with p i n o show ?thesis by blast
qed

text \<open>
  Without an output path the move of line 200 raises, and the run does not return
  normally.
\<close>

lemma start_image_without_output_path:
  "passes_source_checks a_world no_output_globals
   \<and> has_image_extension a_world (target_path no_output_globals)
   \<and> \<not> nsfw a_world no_output_globals
   \<and> start_outcome a_world no_output_globals = Some TypeError"
  by (simp add: passes_source_checks_def nsfw_def start_outcome_def no_output_globals_def
      world_defs run_defs)

text \<open>
  Claim C10, as stated, says that \<^verbatim>\<open>start\<close> ends in \<^verbatim>\<open>destroy\<close> whenever the NSFW
  score of the target exceeds 0.85. The tests of lines 176 to 185 come first: with a
  source image that shows no face, \<^verbatim>\<open>start\<close> reports it and returns normally, whatever
  the score of the target; \<^verbatim>\<open>destroy\<close> is not called and nothing is removed.
\<close>

theorem start_nsfw_destroys_counterexample:
  "nsfw no_face_world image_globals
   \<and> start_outcome no_face_world image_globals = None
   \<and> start_trace no_face_world image_globals
       = [OnChangeStatus
            ''Status: No face detected in source image. Please try with another one!'']"
  by (simp add: nsfw_def start_outcome_def start_trace_def no_face_world_def world_defs run_defs)

text \<open>
  Claim C10, amended. When the NSFW test of the target succeeds (the score of an image
  target, or some sampled frame probability of any other target, exceeds 0.85), no run
  of \<^verbatim>\<open>start\<close> writes the output file or runs a frame processor; and a run that passes
  the source and target checks ends in \<^verbatim>\<open>destroy\<close>: the temporary files of the target
  are removed and \<^verbatim>\<open>quit()\<close> raises \<^verbatim>\<open>SystemExit\<close>, which \<^verbatim>\<open>start\<close> does not catch, so
  that the process ends when \<^verbatim>\<open>start\<close> runs in the main thread.
\<close>

theorem start_nsfw_destroys:
  assumes "nsfw w g"
  shows "\<not> list_ex writes_output (start_trace w g)
     \<and> \<not> list_ex runs_processor (start_trace w g)
     \<and> (passes_source_checks w g \<longrightarrow>
           start_outcome w g = Some (SystemExit None)
           \<and> start_trace w g = [CreateTemp (target_path g), CleanTemp (target_path g)]
           \<and> in_main_thread (start w) (initial g) = Exited)"
proof (cases "passes_source_checks w g")
  case True
  then have p: "passes_source_checks w (glob (initial g))" by (simp add: initial_def)
  have t: "truthy (target_path g)" using True by (simp add: passes_source_checks_def)
  let ?s = "(initial g)\<lparr>trace := trace (initial g) @ [CreateTemp (target_path (glob (initial g)))]\<rparr>"
  have gs: "glob ?s = g" by (simp add: initial_def)
  have "start w (initial g) = (Some (SystemExit None),
           \<lparr>glob = g, trace = [CreateTemp (target_path g), CleanTemp (target_path g)]\<rparr>)"
  proof (cases "has_image_extension w (target_path g)")
    case True
    with assms have "predict_image w (target_path g) > 0.85" by (simp only: nsfw_def if_True)
    from image_nsfw [OF gs this] show ?thesis
      using True t by (simp add: start_passes [OF p] destroy_run) (simp add: initial_def)
  next
    case False
    with assms have "list_ex (\<lambda>p. p > 0.85) (predict_video_frames w (target_path g))"
      by (simp only: nsfw_def if_False)
    from videos_nsfw [OF gs this] show ?thesis
      using False t by (simp add: start_passes [OF p] destroy_run) (simp add: initial_def)
  qed
  then show ?thesis
    by (simp add: start_trace_def start_outcome_def in_main_thread_def)
next
  case False
  then have "\<not> passes_source_checks w (glob (initial g))" by (simp add: initial_def)
  from start_early [OF this] obtain m where
    "start w (initial g) = (None, (initial g)\<lparr>trace := trace (initial g) @ [OnChangeStatus m]\<rparr>)"
    by blast
  then show ?thesis
    using False by (simp add: start_trace_def start_outcome_def initial_def)
qed

theorem start_nsfw_destroys_witness:
  "nsfw nsfw_world image_globals
   \<and> passes_source_checks nsfw_world image_globals
   \<and> start_outcome nsfw_world image_globals = Some (SystemExit None)
   \<and> start_trace nsfw_world image_globals
       = [CreateTemp (Some ''target.png''), CleanTemp (Some ''target.png'')]
   \<and> in_main_thread (start nsfw_world) (initial image_globals) = Exited
   \<and> nsfw nsfw_world video_globals
   \<and> passes_source_checks nsfw_world video_globals
   \<and> start_outcome nsfw_world video_globals = Some (SystemExit None)
   \<and> start_trace nsfw_world video_globals
       = [CreateTemp (Some ''target.mp4''), CleanTemp (Some ''target.mp4'')]
   \<and> in_main_thread (start nsfw_world) (initial video_globals) = Exited"
proof -
  have n: "nsfw nsfw_world image_globals" "nsfw nsfw_world video_globals"
    by (simp_all add: nsfw_def world_defs)
  have p: "passes_source_checks nsfw_world image_globals"
    "passes_source_checks nsfw_world video_globals"
    by (simp_all add: passes_source_checks_def world_defs truthy_def)
  show ?thesis
    using n p start_nsfw_destroys [OF n(1)] start_nsfw_destroys [OF n(2)]
    by (simp add: world_defs)
qed

text \<open>
  When \<^verbatim>\<open>start\<close> runs as the target of the thread of \<^verbatim>\<open>start_in_thread\<close>, the same
  \<^verbatim>\<open>SystemExit\<close> ends that thread only: the caller goes on.
\<close>

lemma start_in_thread_goes_on: "fst (start_in_thread w s) = None"
  by (simp add: start_in_thread_def)

section \<open>Results about the video pipeline\<close>

lemma stage_events_append [simp]: "stage_events (a @ b) = stage_events a @ stage_events b"
  by (simp add: stage_events_def)

lemma stage_events_submits:
  "stage_events (map (\<lambda>c. ApplyAsync f src c m) cs) = replicate (length cs) (stage_of_processor f)"
  by (induction cs) (simp_all add: stage_events_def)

lemma stage_events_gets: "stage_events (map PoolGet ks) = []"
  by (induction ks) (simp_all add: stage_events_def)

lemma slices_of_nonempty:
  assumes "pooled g (length xs)"
  shows "slices_of g xs \<noteq> []"
  using slices_count(1) [OF assms] assms by (auto simp: pooled_def)

lemma cpv_None_stages:
  assumes "conditional_process_video run src xs f s = (None, s')"
  shows "glob s' = glob s
     \<and> (\<exists>k. stage_events (trace s') =
            stage_events (trace s) @ stage_of_processor f # replicate k (stage_of_processor f))"
proof (cases "cpu_cores (glob s) = 0")
  case True
  with assms show ?thesis
    by (simp add: conditional_process_video_def py_floordiv_def throw_def)
next
  case nz: False
  show ?thesis
  proof (cases "pooled (glob s) (length xs)")
    case True
    from cpv_pooled_None [OF True assms]
    have fin: "\<forall>c \<in> set (slices_of (glob s) xs). run f src c ''cpu'' = None" .
    from slices_of_nonempty [OF True] obtain k where k: "length (slices_of (glob s) xs) = Suc k"
      by (cases "slices_of (glob s) xs") auto
    from cpv_pooled_ok [where run = run and f = f and src = src, OF True fin] assms
    have "s' = s\<lparr>trace := trace s @ PoolCreate (cpu_cores (glob s))
                  # map (\<lambda>c. ApplyAsync f src c ''cpu'') (slices_of (glob s) xs)
                  @ map PoolGet [0..<length (slices_of (glob s) xs)]
                  @ [PoolClose, PoolJoin]\<rparr>"
      by simp
    then have g: "glob s' = glob s"
      and tr: "trace s' = trace s @ [PoolCreate (cpu_cores (glob s))]
                  @ map (\<lambda>c. ApplyAsync f src c ''cpu'') (slices_of (glob s) xs)
                  @ map PoolGet [0..<length (slices_of (glob s) xs)]
                  @ [PoolClose, PoolJoin]"
      by simp_all
    have "stage_events (trace s') = stage_events (trace s) @ stage_events [PoolCreate (cpu_cores (glob s))]
                  @ stage_events (map (\<lambda>c. ApplyAsync f src c ''cpu'') (slices_of (glob s) xs))
                  @ stage_events (map PoolGet [0..<length (slices_of (glob s) xs)])
                  @ stage_events [PoolClose, PoolJoin]"
      by (simp only: tr stage_events_append)
    also have "\<dots> = stage_events (trace s) @ replicate (Suc k) (stage_of_processor f)"
      by (simp only: stage_events_submits stage_events_gets k) (simp add: stage_events_def)
    finally have "stage_events (trace s') =
            stage_events (trace s) @ stage_of_processor f # replicate k (stage_of_processor f)"
      by simp
    with g show ?thesis by blast
  next
    case False
    from cpv_direct [where run = run and f = f and src = src, OF False nz] assms
    have "s' = s\<lparr>trace := trace s @ [ProcessVideo f (source_path (glob s)) xs ''gpu'']\<rparr>"
      by (auto simp: andthen_emit pass_def throw_def split: option.splits)
    then have "glob s' = glob s" and "stage_events (trace s') =
            stage_events (trace s) @ stage_of_processor f # replicate 0 (stage_of_processor f)"
      by (simp_all add: stage_events_def)
    then show ?thesis by blast
  qed
qed

lemma yields_emit: "yields g (emit e) (\<lambda>l. l = stage_of e)"
  by (auto simp: yields_def emit_def stage_events_def)

lemma yields_pass: "yields g pass (\<lambda>l. l = [])"
  by (auto simp: yields_def pass_def)

lemma yields_andthen:
  assumes "yields g p Q" and "yields g q R"
  shows "yields g (andthen p q) (\<lambda>l. \<exists>a b. l = a @ b \<and> Q a \<and> R b)"
  unfolding yields_def
proof (intro allI impI)
  fix s s'
  assume c: "same_config g (glob s)" and r: "andthen p q s = (None, s')"
  from r obtain s1 where p: "p s = (None, s1)" and q: "q s1 = (None, s')"
    by (auto simp: andthen_def split: prod.splits option.splits)
  from assms(1) c p obtain a where c1: "same_config g (glob s1)"
    and a: "stage_events (trace s1) = stage_events (trace s) @ a" "Q a"
    unfolding yields_def by blast
  from assms(2) c1 q obtain b where c2: "same_config g (glob s')"
    and b: "stage_events (trace s') = stage_events (trace s1) @ b" "R b"
    unfolding yields_def by blast
  from a b have "stage_events (trace s') = stage_events (trace s) @ (a @ b)" by simp
  with c2 a(2) b(2)
  show "same_config g (glob s') \<and>
        (\<exists>l. stage_events (trace s') = stage_events (trace s) @ l \<and> (\<exists>a b. l = a @ b \<and> Q a \<and> R b))"
    by blast
qed

lemma yields_if:
  assumes "c \<Longrightarrow> yields g p Q" and "\<not> c \<Longrightarrow> yields g q R"
  shows "yields g (if c then p else q) (\<lambda>l. if c then Q l else R l)"
  using assms by (cases c) simp_all

lemma yields_weaken:
  assumes "yields g p Q" and "\<And>l. Q l \<Longrightarrow> Q' l"
  shows "yields g p Q'"
  using assms unfolding yields_def by blast

lemma yields_with_glob:
  assumes "\<And>g'. same_config g g' \<Longrightarrow> yields g (k g') Q"
  shows "yields g (with_glob k) Q"
  using assms unfolding yields_def with_glob_def by blast

lemma yields_destroy: "yields g destroy (\<lambda>l. False)"
  by (auto simp: yields_def destroy_def with_glob_def andthen_def quit_def throw_def
      split: prod.splits option.splits)

lemma yields_release_resources: "yields g release_resources (\<lambda>l. l = [])"
  unfolding release_resources_def
  by (rule yields_with_glob, rule yields_weaken, rule yields_if, rule yields_emit, rule yields_pass)
     (simp split: if_splits)

lemma yields_set_gpu_threads: "yields g (set_gpu_threads n) (\<lambda>l. l = [])"
  by (auto simp: yields_def set_gpu_threads_def same_config_def)

lemma yields_cpv:
  "yields g (conditional_process_video run src xs f)
     (\<lambda>l. \<exists>k. l = stage_of_processor f # replicate k (stage_of_processor f))"
  unfolding yields_def
proof (intro allI impI)
  fix s s'
  assume c: "same_config g (glob s)" and r: "conditional_process_video run src xs f s = (None, s')"
  from cpv_None_stages [OF r] c
  show "same_config g (glob s') \<and>
        (\<exists>l. stage_events (trace s') = stage_events (trace s) @ l
           \<and> (\<exists>k. l = stage_of_processor f # replicate k (stage_of_processor f)))"
    by auto
qed

lemma yields_seq_exact:
  assumes "yields g p (\<lambda>l. l = A)" and "yields g q (\<lambda>l. l = B)"
  shows "yields g (andthen p q) (\<lambda>l. l = A @ B)"
  by (rule yields_weaken [OF yields_andthen [OF assms]]) auto

lemma yields_if_exact:
  assumes "c \<Longrightarrow> yields g p (\<lambda>l. l = A)" and "\<not> c \<Longrightarrow> yields g q (\<lambda>l. l = B)"
  shows "yields g (if c then p else q) (\<lambda>l. l = (if c then A else B))"
  using assms by (cases c) simp_all

lemma yields_opt_destroy: "yields g (if c then destroy else pass) (\<lambda>l. l = [])"
  by (rule yields_weaken [OF yields_if [OF yields_destroy yields_pass]]) (simp split: if_splits)

lemma yields_opt_cpv:
  "yields g (if c then andthen (emit (OnChangeStatus m)) (conditional_process_video run src xs f)
             else pass)
     (\<lambda>l. \<exists>k. l = (if c then stage_of_processor f # replicate k (stage_of_processor f) else []))"
  by (rule yields_weaken [OF yields_if [OF yields_andthen [OF yields_emit yields_cpv] yields_pass]])
     (auto split: if_splits)

lemmas yields_exact = yields_seq_exact yields_if_exact yields_emit yields_pass
  yields_release_resources yields_set_gpu_threads

lemma yields_image_to_videos:
  "yields g (image_to_videos w)
     (\<lambda>l. \<exists>k1 k2. l = [Extraction]
        @ (if ''face-swapper'' \<in> set (frame_processors g) then Swap # replicate k1 Swap else [])
        @ (if gpu_vendor g = Some ''nvidia'' \<and> ''face-enhancer'' \<in> set (frame_processors g)
           then Enhancement # replicate k2 Enhancement else [])
        @ [Reassembly, if keep_audio g then AudioRestoration else PlainMove, Cleanup, Cleanup])"
  unfolding image_to_videos_def
  apply (rule yields_with_glob)
  apply (rule yields_weaken)
   apply (simp only: Let_def update_status_def)
   apply (rule yields_andthen, rule yields_opt_destroy)
   apply (rule yields_andthen, rule yields_emit)
   apply (rule yields_andthen, rule yields_emit)
   apply (rule yields_andthen, rule yields_emit)
   apply (rule yields_andthen, rule yields_emit)
   apply (rule yields_andthen, rule yields_opt_cpv)
   apply (rule yields_andthen, rule yields_release_resources)
   apply (rule yields_andthen, rule yields_set_gpu_threads)
   apply (rule yields_andthen, rule yields_opt_cpv)
   apply (rule yields_exact)+
  apply (simp add: same_config_def)
  apply (elim exE conjE)
  apply (auto split: if_splits)
  done

lemma returns_emit: "returns g (emit e)"
  by (simp add: returns_def emit_def)

lemma returns_pass: "returns g pass"
  by (simp add: returns_def pass_def)

lemma returns_andthen: "returns g p \<Longrightarrow> returns g q \<Longrightarrow> returns g (andthen p q)"
  unfolding returns_def andthen_def by (metis (mono_tags, lifting) case_prod_conv option.simps(4))

lemma returns_if: "(c \<Longrightarrow> returns g p) \<Longrightarrow> (\<not> c \<Longrightarrow> returns g q) \<Longrightarrow> returns g (if c then p else q)"
  by simp

lemma returns_with_glob: "(\<And>g'. same_config g g' \<Longrightarrow> returns g (k g')) \<Longrightarrow> returns g (with_glob k)"
  unfolding returns_def with_glob_def by blast

lemma returns_release_resources: "returns g release_resources"
  unfolding release_resources_def
  by (rule returns_with_glob, rule returns_if, rule returns_emit, rule returns_pass)

lemma returns_set_gpu_threads: "returns g (set_gpu_threads n)"
  by (simp add: returns_def set_gpu_threads_def same_config_def)

lemma returns_cpv:
  assumes "cpu_cores g \<noteq> 0" and "\<forall>src xs m. run f src xs m = None"
  shows "returns g (conditional_process_video run src xs f)"
  unfolding returns_def
proof (intro allI impI)
  fix s :: state assume c: "same_config g (glob s)"
  then have nz: "cpu_cores (glob s) \<noteq> 0" using assms(1) by (simp add: same_config_def)
  show "\<exists>s'. conditional_process_video run src xs f s = (None, s') \<and> same_config g (glob s')"
  proof (cases "pooled (glob s) (length xs)")
    case True
    have "\<forall>c \<in> set (slices_of (glob s) xs). run f src c ''cpu'' = None"
      using assms(2) by simp
    from cpv_pooled_ok [where run = run and f = f and src = src, OF True this] c
    show ?thesis by simp
  next
    case False
    from cpv_direct [where run = run and f = f and src = src, OF False nz] assms(2) c
    show ?thesis by (simp add: andthen_emit pass_def)
  qed
qed

lemma returns_opt_destroy: "\<not> c \<Longrightarrow> returns g (if c then destroy else pass)"
  by (simp add: returns_pass)

lemmas returns_rules = returns_andthen returns_if returns_emit returns_pass
  returns_release_resources returns_set_gpu_threads returns_cpv

lemma returns_image_to_videos:
  assumes "\<not> list_ex (\<lambda>p. p > 0.85) (predict_video_frames w (target_path g))"
    and "cpu_cores g \<noteq> 0"
    and "\<forall>f src xs m. process_video_of w f src xs m = None"
  shows "returns g (image_to_videos w)"
  unfolding image_to_videos_def
  apply (rule returns_with_glob)
  apply (simp only: Let_def update_status_def)
  apply (rule returns_andthen)
   apply (rule returns_opt_destroy)
   apply (simp only: same_config_def)
   apply (elim conjE)
   apply (simp only: assms(1) simp_thms)
  apply (rule returns_rules | simp add: assms(2,3) same_config_def)+
  done

lemma remdups_adj_block:
  "a \<noteq> b \<Longrightarrow> remdups_adj (a # replicate k a @ b # ys) = a # remdups_adj (b # ys)"
  by (induction k) simp_all

text \<open>
  Claim C9, as stated, lists face enhancement among the stages of a video target
  whenever it is selected. Line 221 also asks for the GPU vendor \<^verbatim>\<open>nvidia\<close>: with both
  processors selected and no GPU vendor the run goes from the swap straight to the
  reassembly.
\<close>

theorem start_video_stage_order_counterexample:
  "passes_source_checks a_world video_globals
   \<and> \<not> has_image_extension a_world (target_path video_globals)
   \<and> \<not> nsfw a_world video_globals
   \<and> ''face-enhancer'' \<in> set (frame_processors video_globals)
   \<and> start_outcome a_world video_globals = None
   \<and> stages (start_trace a_world video_globals)
       = [Extraction, Swap, Reassembly, AudioRestoration, Cleanup]"
  by code_simp

text \<open>
  Claim C9, amended. For a target without an image extension that passes the source
  checks, every run of \<^verbatim>\<open>start\<close> that returns normally goes through the stages in this
  order: frame extraction, face swap when \<^verbatim>\<open>face-swapper\<close> is selected, face enhancement
  when \<^verbatim>\<open>face-enhancer\<close> is selected and the GPU vendor is \<^verbatim>\<open>nvidia\<close>, video reassembly,
  audio restoration when \<^verbatim>\<open>keep_audio\<close> is set and a plain move of the temporary video
  otherwise, and cleanup of the temporary files last. The run does return normally when
  the NSFW check passes, \<^verbatim>\<open>cpu_cores\<close> is not zero and no frame processor raises.
\<close>

theorem start_video_stage_order:
  assumes "passes_source_checks w g" and "\<not> has_image_extension w (target_path g)"
  shows "(start_outcome w g = None \<longrightarrow>
           stages (start_trace w g) =
             [Extraction]
             @ (if ''face-swapper'' \<in> set (frame_processors g) then [Swap] else [])
             @ (if gpu_vendor g = Some ''nvidia'' \<and> ''face-enhancer'' \<in> set (frame_processors g)
                then [Enhancement] else [])
             @ [Reassembly, if keep_audio g then AudioRestoration else PlainMove, Cleanup])
     \<and> (\<not> nsfw w g \<and> cpu_cores g \<noteq> 0 \<and> (\<forall>f src xs m. process_video_of w f src xs m = None)
           \<longrightarrow> start_outcome w g = None)"
proof -
  let ?s = "(initial g)\<lparr>trace := trace (initial g) @ [CreateTemp (target_path (glob (initial g)))]\<rparr>"
  have p: "passes_source_checks w (glob (initial g))" using assms(1) by (simp add: initial_def)
  have run: "start w (initial g) = image_to_videos w ?s"
    using assms(2) by (simp add: start_passes [OF p]) (simp add: initial_def)
  have cfg: "same_config g (glob ?s)" by (simp add: same_config_def initial_def)
  have se: "stage_events (trace ?s) = []" by (simp add: stage_events_def initial_def)
  have order: "stages (start_trace w g) =
             [Extraction]
             @ (if ''face-swapper'' \<in> set (frame_processors g) then [Swap] else [])
             @ (if gpu_vendor g = Some ''nvidia'' \<and> ''face-enhancer'' \<in> set (frame_processors g)
                then [Enhancement] else [])
             @ [Reassembly, if keep_audio g then AudioRestoration else PlainMove, Cleanup]"
    if "start_outcome w g = None"
  proof -
    from that obtain s' where r: "image_to_videos w ?s = (None, s')"
      by (cases "image_to_videos w ?s") (simp add: start_outcome_def run)
    from yields_image_to_videos [of g w] cfg r obtain k1 k2 where
      "stage_events (trace s') = stage_events (trace ?s) @ [Extraction]
        @ (if ''face-swapper'' \<in> set (frame_processors g) then Swap # replicate k1 Swap else [])
        @ (if gpu_vendor g = Some ''nvidia'' \<and> ''face-enhancer'' \<in> set (frame_processors g)
           then Enhancement # replicate k2 Enhancement else [])
        @ [Reassembly, if keep_audio g then AudioRestoration else PlainMove, Cleanup, Cleanup]"
      unfolding yields_def by blast
    then have "stages (trace s') = remdups_adj ([Extraction]
        @ (if ''face-swapper'' \<in> set (frame_processors g) then Swap # replicate k1 Swap else [])
        @ (if gpu_vendor g = Some ''nvidia'' \<and> ''face-enhancer'' \<in> set (frame_processors g)
           then Enhancement # replicate k2 Enhancement else [])
        @ [Reassembly, if keep_audio g then AudioRestoration else PlainMove, Cleanup, Cleanup])"
      by (simp only: stages_def stage_events_def [symmetric] se append_Nil)
    also have "\<dots> = [Extraction]
             @ (if ''face-swapper'' \<in> set (frame_processors g) then [Swap] else [])
             @ (if gpu_vendor g = Some ''nvidia'' \<and> ''face-enhancer'' \<in> set (frame_processors g)
                then [Enhancement] else [])
             @ [Reassembly, if keep_audio g then AudioRestoration else PlainMove, Cleanup]"
      by (simp add: remdups_adj_block)
    finally show ?thesis
      by (simp add: start_trace_def run r)
  qed
  have total: "start_outcome w g = None"
    if "\<not> nsfw w g \<and> cpu_cores g \<noteq> 0 \<and> (\<forall>f src xs m. process_video_of w f src xs m = None)"
  proof -
    from that assms(2) have n: "\<not> list_ex (\<lambda>p. p > 0.85) (predict_video_frames w (target_path g))"
      unfolding nsfw_def by (simp only: if_False) simp
    from returns_image_to_videos [OF n] that cfg
    obtain s' where "image_to_videos w ?s = (None, s')"
      unfolding returns_def by blast
    then show ?thesis by (simp add: start_outcome_def run)
  qed
  from order total show ?thesis by blast
qed

theorem start_video_stage_order_witness:
  "passes_source_checks a_world nvidia_video_globals
   \<and> \<not> has_image_extension a_world (target_path nvidia_video_globals)
   \<and> \<not> nsfw a_world nvidia_video_globals
   \<and> cpu_cores nvidia_video_globals \<noteq> 0
   \<and> start_outcome a_world nvidia_video_globals = None
   \<and> stages (start_trace a_world nvidia_video_globals)
       = [Extraction, Swap, Enhancement, Reassembly, AudioRestoration, Cleanup]"
proof -
  have p: "passes_source_checks a_world nvidia_video_globals" by code_simp
  have i: "\<not> has_image_extension a_world (target_path nvidia_video_globals)" by code_simp
  have n: "\<not> nsfw a_world nvidia_video_globals" by code_simp
  have c: "cpu_cores nvidia_video_globals \<noteq> 0" by code_simp
  have r: "\<forall>f src xs m. process_video_of a_world f src xs m = None"
    by (simp add: a_world_def never_raises_def)
  have v: "gpu_vendor nvidia_video_globals = Some ''nvidia''"
    "frame_processors nvidia_video_globals = [''face-swapper'', ''face-enhancer'']"
    "keep_audio nvidia_video_globals"
    by (simp_all add: nvidia_video_globals_def video_globals_def a_globals_def)
  from start_video_stage_order [OF p i] n c r
  have "start_outcome a_world nvidia_video_globals = None"
    and "stages (start_trace a_world nvidia_video_globals)
       = [Extraction, Swap, Enhancement, Reassembly, AudioRestoration, Cleanup]"
    by (simp_all add: v)
  with p i n c show ?thesis by simp
qed

section \<open>The two branches of conditional_process_video compared\<close>

text \<open>
  The pooled branch passes its \<^verbatim>\<open>source_path\<close> argument to the workers (line 156), the
  direct branch passes \<^verbatim>\<open>roop.globals.source_path\<close> (line 163). The two calls of the
  program, at lines 217 and 223, pass \<^verbatim>\<open>roop.globals.source_path\<close> as the argument.
\<close>

lemma work_same_when_source_agrees:
  assumes "pooled g (length xs)" and "\<not> pooled g' (length xs)" and "cpu_cores g' \<noteq> 0"
    and "source_path g' = src"
  shows "work (cpv_trace run g src xs f) = work (cpv_trace run g' src xs f)"
  using assms by (simp add: work_pooled work_direct)

lemma work_as_called:
  assumes "cpu_cores g \<noteq> 0"
  shows "work (cpv_trace run g (source_path g) xs f) = map (\<lambda>p. (source_path g, p)) xs"
  using assms by (cases "pooled g (length xs)") (simp_all add: work_pooled work_direct)

text \<open>
  Claim C6. Called as the program calls it, with \<^verbatim>\<open>roop.globals.source_path\<close> as the
  source path, \<^verbatim>\<open>conditional_process_video\<close> hands the same work to the frame processor
  whichever branch the configuration selects: every frame path of the list once, in the
  order of the list, each with that source image. So two configurations with the same
  source path, one taking the pooled branch and one the direct branch, process the same
  frames with the same source. (With \<^verbatim>\<open>cpu_cores\<close> zero line 151 raises and neither
  branch runs.)
\<close>

theorem cpv_same_work_in_both_branches:
  assumes "cpu_cores g \<noteq> 0" and "cpu_cores g' \<noteq> 0" and "source_path g' = source_path g"
  shows "work (cpv_trace run g (source_path g) xs f) = map (\<lambda>p. (source_path g, p)) xs
     \<and> work (cpv_trace run g' (source_path g') xs f) = work (cpv_trace run g (source_path g) xs f)"
  using work_as_called [OF assms(1)] work_as_called [OF assms(2)] assms(3) by simp

theorem cpv_same_work_in_both_branches_witness:
  "cpu_cores a_globals \<noteq> 0 \<and> cpu_cores nvidia_globals \<noteq> 0
   \<and> source_path nvidia_globals = source_path a_globals
   \<and> pooled a_globals (length frames7) \<and> \<not> pooled nvidia_globals (length frames7)
   \<and> work (cpv_trace never_raises a_globals (source_path a_globals) frames7 FaceSwapper)
       = map (\<lambda>p. (Some ''face.jpg'', p)) frames7
   \<and> work (cpv_trace never_raises nvidia_globals (source_path nvidia_globals) frames7 FaceSwapper)
       = work (cpv_trace never_raises a_globals (source_path a_globals) frames7 FaceSwapper)"
proof -
  have c: "cpu_cores a_globals \<noteq> 0" "cpu_cores nvidia_globals \<noteq> 0"
    by (simp_all add: nvidia_globals_def a_globals_def)
  have e: "source_path nvidia_globals = source_path a_globals"
    by (simp add: nvidia_globals_def)
  have b: "pooled a_globals (length frames7)" "\<not> pooled nvidia_globals (length frames7)"
    by code_simp+
  have src: "source_path a_globals = Some ''face.jpg''" by (simp add: a_globals_def)
  show ?thesis
    using c e b cpv_same_work_in_both_branches [OF c e, of never_raises frames7 FaceSwapper]
    by (simp add: src)
qed


end
